theory Spec2Isabelle
  imports Complex_Main "HOL-Library.Multiset"
begin

section \<open>The audio data loader of deepspeech.pytorch (data/data_loader.py)\<close>

text \<open>
  A shallow embedding of \<^verbatim>\<open>src/data/data_loader.py\<close>.  Arrays and tensors of floating
  point numbers are lists of \<open>real\<close>s: a two-dimensional array is the list of its rows
  (axis 0), each row the list of its entries (axis 1).  Rounding, infinities and NaN are
  outside the model.  Exceptions are values of the type \<open>exn\<close>; a function that may raise
  returns \<open>exn + 'a\<close>, with \<open>Inl\<close> the exception.
\<close>

subsection \<open>Exceptions\<close>

datatype exn =
    KeyboardInterrupt
  | FileNotFoundError
  | AssertionError
  | KeyError
  | ValueError
  | ZeroDivisionError
  | IndexError
  | RuntimeError
  | OSError
  | UnpicklingError
  | NoSuchNormalization

text \<open>\<open>except Exception\<close> catches everything but the \<open>BaseException\<close>s outside
  \<open>Exception\<close>; of the exceptions above that is \<open>KeyboardInterrupt\<close> alone.\<close>

fun is_Exception :: "exn \<Rightarrow> bool" where
  "is_Exception KeyboardInterrupt = False"
| "is_Exception _ = True"

subsection \<open>Two-dimensional arrays\<close>

type_synonym array2 = "real list list"

text \<open>\<open>shape[1]\<close> of an array with at least one row; librosa's STFT has
  \<open>1 + n_fft // 2 \<ge> 1\<close> rows.\<close>

definition ncols :: "array2 \<Rightarrow> nat" where
  "ncols a = (case a of [] \<Rightarrow> 0 | r # _ \<Rightarrow> length r)"

text \<open>\<open>a.resize((n, *shape[1:]))\<close>, in place: numpy enlarges the data area and fills the
  new part with zeros.  The row length stays, so for an array stored row by row the rows
  that fit are kept and the new rows are zero; this is the array modelled here.\<close>

definition resize_rows :: "nat \<Rightarrow> array2 \<Rightarrow> array2" where
  "resize_rows n a = take n a @ replicate (n - length a) (replicate (ncols a) 0)"

text \<open>The slice \<open>a[80:0:-1]\<close>: rows 80, 79, ..., 1, as far as they exist.\<close>

definition slice_80_0_rev :: "'a list \<Rightarrow> 'a list" where
  "slice_80_0_rev a = rev (drop 1 (take 81 a))"

text \<open>The assignment \<open>a[81:] = src\<close> of rows: the two sides must have the same number of rows
  (a single source row would be broadcast), else numpy raises \<open>ValueError\<close>.\<close>

definition assign_from_81 :: "array2 \<Rightarrow> array2 \<Rightarrow> exn + array2" where
  "assign_from_81 a src =
     (if length src = length a - 81 then Inr (take 81 a @ src)
      else if length src = 1 then Inr (take 81 a @ replicate (length a - 81) (hd src))
      else Inl ValueError)"

subsection \<open>SpectrogramParser.audio_to_stft\<close>

text \<open>
  \<^verbatim>\<open>
  D = librosa.stft(y, n_fft=n_fft, hop_length=hop_length, win_length=win_length, window=self.window)
  spect, phase = librosa.magphase(D)
  shape = spect.shape
  if shape[0] < 161:
      spect.resize((161, *shape[1:]))
      spect[81:] = spect[80:0:-1]
  return spect[:161]
  \<close>
  The transform of the external library enters as its result: \<open>spect\<close> is the magnitude
  of the STFT, one row per frequency bin.  \<open>fit_161\<close> is the rest of the function; the
  function itself is \<open>audio_to_stft\<close> below, with the parser.
\<close>

definition fit_161 :: "array2 \<Rightarrow> exn + array2" where
  "fit_161 spect =
     (if length spect < 161 then
        (let r = resize_rows 161 spect in
         case assign_from_81 r (slice_80_0_rev r) of
           Inl e \<Rightarrow> Inl e
         | Inr s \<Rightarrow> Inr (take 161 s))
      else Inr (take 161 spect))"

subsection \<open>Files, paths and the outside world\<close>

text \<open>
  The content of a file: arbitrary bytes (an audio file; \<open>np.load\<close> cannot read it), the
  \<open>.npy\<close> file of a pickled dictionary of arrays, as \<open>np.save(fn, {'spect': spect})\<close> writes
  it, or the beginning of such a file, left by a write that did not finish.
\<close>

datatype file_content =
    Bytes string
  | NpyDict "(string \<times> array2) list"
  | Truncated

text \<open>What \<open>print\<close> and \<open>traceback.print_exc\<close> write.\<close>

datatype out_line =
    Moving string string
  | CantLoad string exn
  | Traceback exn

text \<open>The file system maps the paths of the regular files to their contents; directories
  are not modelled (\<open>mkdir(parents=True, exist_ok=True)\<close> changes nothing here).\<close>

record world =
  files :: "string \<rightharpoonup> file_content"
  stdout :: "out_line list"

definition os_path_exists :: "world \<Rightarrow> string \<Rightarrow> bool" where
  "os_path_exists w path = (files w path \<noteq> None)"

definition np_save :: "world \<Rightarrow> string \<Rightarrow> file_content \<Rightarrow> world" where
  "np_save w path content = w\<lparr>files := (files w)(path \<mapsto> content)\<rparr>"

text \<open>\<open>os.rename\<close> and \<open>shutil.move\<close> of a file, replacing the destination.\<close>

definition os_rename :: "world \<Rightarrow> string \<Rightarrow> string \<Rightarrow> world \<times> (exn + unit)" where
  "os_rename w src dst =
     (case files w src of
        None \<Rightarrow> (w, Inl FileNotFoundError)
      | Some f \<Rightarrow> (w\<lparr>files := ((files w)(src := None))(dst \<mapsto> f)\<rparr>, Inr ()))"

definition os_unlink :: "world \<Rightarrow> string \<Rightarrow> world \<times> (exn + unit)" where
  "os_unlink w path =
     (case files w path of
        None \<Rightarrow> (w, Inl FileNotFoundError)
      | Some f \<Rightarrow> (w\<lparr>files := (files w)(path := None)\<rparr>, Inr ()))"

text \<open>\<open>np.load(cache_fn).item()['spect']\<close> on the content of a file.\<close>

definition np_load_spect :: "file_content \<Rightarrow> exn + array2" where
  "np_load_spect f =
     (case f of
        Bytes b \<Rightarrow> Inl UnpicklingError
      | Truncated \<Rightarrow> Inl ValueError
      | NpyDict d \<Rightarrow> (case map_of d ''spect'' of None \<Rightarrow> Inl KeyError | Some s \<Rightarrow> Inr s))"

text \<open>\<open>Path(p).name\<close> of a POSIX path: the path is split at \<open>/\<close>, empty components and
  \<open>.\<close> are dropped, and the name is the last component left (empty if none is).\<close>

fun split_slash :: "string \<Rightarrow> string list" where
  "split_slash [] = [[]]"
| "split_slash (c # cs) =
     (if c = CHR ''/'' then [] # split_slash cs
      else (case split_slash cs of
              [] \<Rightarrow> [[c]]
            | part # parts \<Rightarrow> (c # part) # parts))"

definition path_parts :: "string \<Rightarrow> string list" where
  "path_parts p = filter (\<lambda>part. part \<noteq> [] \<and> part \<noteq> ''.'') (split_slash p)"

definition path_name :: "string \<Rightarrow> string" where
  "path_name p = (case rev (path_parts p) of [] \<Rightarrow> [] | part # _ \<Rightarrow> part)"

text \<open>\<open>str(n)\<close> of an integer.\<close>

definition digit_char :: "nat \<Rightarrow> char" where
  "digit_char n = ''0123456789abcdef'' ! (n mod 16)"

fun str_nat :: "nat \<Rightarrow> string" where
  "str_nat n = (if n < 10 then [digit_char n] else str_nat (n div 10) @ [digit_char (n mod 10)])"

definition str_int :: "int \<Rightarrow> string" where
  "str_int i = (if i < 0 then CHR ''-'' # str_nat (nat (- i)) else str_nat (nat i))"

text \<open>\<open>hashlib.sha1(b).hexdigest()\<close>: the 160 bits of the digest as 40 hexadecimal digits,
  the most significant first.  The hash function itself is a parameter (below); its
  digest is a number below \<open>2^160\<close>.\<close>

definition hexdigest :: "nat \<Rightarrow> string" where
  "hexdigest n = map (\<lambda>i. digit_char ((n div 16 ^ (39 - i)) mod 16)) [0..<40]"

subsection \<open>Parameters: external tools, libraries and random draws\<close>

text \<open>
  The code calls programs and libraries that are not part of it.  They are parameters:
  \<^item> \<open>sha1\<close>: the SHA-1 digest of the content of a file;
  \<^item> \<open>sox_tempo_gain content sample_rate tempo gain channel\<close>: what \<open>load_audio\<close> reads from
    the file that \<open>sox\<close> writes for this input and these effects, the samples and their rate,
    or the exception of a failed load;
  \<^item> \<open>stft_magnitude y n_fft hop_length window\<close>: the magnitude of \<open>librosa.stft\<close>, or the
    exception that librosa raises for these arguments;
  \<^item> \<open>inject_noise seed y\<close>: \<open>NoiseInjection.inject_noise\<close>, with its own random draws;
  \<^item> \<open>gaussian_filter1d xs sigma\<close>: the filter of scipy.
\<close>

record externals =
  sha1 :: "file_content \<Rightarrow> nat"
  sox_tempo_gain :: "file_content \<Rightarrow> nat \<Rightarrow> real \<Rightarrow> real \<Rightarrow> int \<Rightarrow> exn + (real list \<times> nat)"
  stft_magnitude :: "real list \<Rightarrow> int \<Rightarrow> int \<Rightarrow> string \<Rightarrow> exn + array2"
  inject_noise :: "nat \<Rightarrow> real list \<Rightarrow> exn + real list"
  gaussian_filter1d :: "real list \<Rightarrow> real \<Rightarrow> real list"

text \<open>When and whether the write of the cache file is cut short.\<close>

datatype write_event =
    Completes
  | SaveOSError
  | InterruptedInSave bool
  | InterruptedBeforeRename
  | InterruptedAfterRename

text \<open>
  The random draws of one call of \<open>parse_audio\<close>, and the fate of its write:
  \<open>random.randrange(3)\<close>; the samples of \<open>[0, 1)\<close> behind the two calls of
  \<open>np.random.uniform\<close>; \<open>np.random.binomial(1, noise_prob)\<close>; the state from which the
  noise injector draws; \<open>torch.rand(1)\<close>.  \<open>InterruptedInSave partial\<close> is a
  \<open>KeyboardInterrupt\<close> inside \<open>np.save\<close>, after the temporary file was created if
  \<open>partial\<close> holds.
\<close>

record draws =
  randrange3 :: nat
  tempo_u :: real
  gain_u :: real
  add_noise :: nat
  noise_seed :: nat
  rand1 :: real
  write_event :: write_event

text \<open>\<open>np.random.uniform(low, high)\<close> is \<open>low + (high - low) * random_sample()\<close>.\<close>

definition np_random_uniform :: "real \<Rightarrow> real \<Rightarrow> real \<Rightarrow> real" where
  "np_random_uniform low high u = low + (high - low) * u"

text \<open>\<open>"{:.3f}".format(x)\<close>, read back as a number: \<open>x\<close> rounded to three decimals.\<close>

definition fmt3 :: "real \<Rightarrow> real" where
  "fmt3 x = real_of_int (round (x * 1000)) / 1000"

subsection \<open>Tempo variants\<close>

text \<open>
  \<^verbatim>\<open>
  TEMPOS = {
      0: ('1.0', (1.0, 1.0)),
      1: ('0.9', (0.85, 0.95)),
      2: ('1.1', (1.05, 1.15))
  }
  \<close>
\<close>

definition TEMPOS :: "nat \<Rightarrow> (string \<times> real \<times> real) option" where
  "TEMPOS tempo_id =
     (if tempo_id = 0 then Some (''1.0'', 1, 1)
      else if tempo_id = 1 then Some (''0.9'', 85 / 100, 95 / 100)
      else if tempo_id = 2 then Some (''1.1'', 105 / 100, 115 / 100)
      else None)"

subsection \<open>Loading the audio with random tempo and gain\<close>

text \<open>
  \<^verbatim>\<open>
  def augment_audio_with_sox(path, sample_rate, tempo, gain, channel=-1):
      ...
      sox_augment_params = ["tempo", "{:.3f}".format(tempo), "gain", "{:.3f}".format(gain)]
      ...
      os.system(sox_params)
      y, sample_rate_ = load_audio(augmented_filename)
      assert sample_rate == sample_rate_
      return y, sample_rate
  \<close>
\<close>

definition augment_audio_with_sox ::
  "externals \<Rightarrow> file_content \<Rightarrow> nat \<Rightarrow> real \<Rightarrow> real \<Rightarrow> int \<Rightarrow> exn + (real list \<times> nat)" where
  "augment_audio_with_sox ext content sample_rate tempo gain channel =
     (case sox_tempo_gain ext content sample_rate (fmt3 tempo) (fmt3 gain) channel of
        Inl e \<Rightarrow> Inl e
      | Inr (y, sample_rate') \<Rightarrow>
          if sample_rate = sample_rate' then Inr (y, sample_rate) else Inl AssertionError)"

text \<open>
  \<^verbatim>\<open>
  def load_randomly_augmented_audio(path, sample_rate=16000, tempo_range=(0.85, 1.15),
                                    gain_range=(-10, 10), channel=-1):
      low_tempo, high_tempo = tempo_range
      tempo_value = np.random.uniform(low=low_tempo, high=high_tempo)
      low_gain, high_gain = gain_range
      gain_value = np.random.uniform(low=low_gain, high=high_gain)
      audio, sample_rate_ = augment_audio_with_sox(path=path, sample_rate=sample_rate,
                                                   tempo=tempo_value, gain=gain_value, channel=channel)
      assert sample_rate == sample_rate_
      return audio, sample_rate
  \<close>
\<close>

definition load_randomly_augmented_audio ::
  "externals \<Rightarrow> draws \<Rightarrow> file_content \<Rightarrow> nat \<Rightarrow> real \<times> real \<Rightarrow> real \<times> real \<Rightarrow> int
     \<Rightarrow> exn + (real list \<times> nat)" where
  "load_randomly_augmented_audio ext d content sample_rate tempo_range gain_range channel =
     (let tempo_value = np_random_uniform (fst tempo_range) (snd tempo_range) (tempo_u d);
          gain_value = np_random_uniform (fst gain_range) (snd gain_range) (gain_u d)
      in case augment_audio_with_sox ext content sample_rate tempo_value gain_value channel of
           Inl e \<Rightarrow> Inl e
         | Inr (audio, sample_rate') \<Rightarrow>
             if sample_rate = sample_rate' then Inr (audio, sample_rate)
             else Inl AssertionError)"

subsection \<open>SpectrogramParser\<close>

text \<open>\<open>self.normalize\<close> is \<open>False\<close> by default and the name of a mode otherwise.\<close>

datatype normalize_conf = NormFlag bool | NormName string

text \<open>The fields of the parser; \<open>window\<close> is the name of the window function, and
  \<open>noiseInjector\<close> says whether a noise injector was configured.\<close>

record parser =
  window_stride :: real
  window_size :: real
  sample_rate :: nat
  window :: string
  normalize :: normalize_conf
  augment :: bool
  channel :: int
  cache_path :: string
  noiseInjector :: bool

text \<open>\<open>int(x)\<close> of a float truncates towards zero.\<close>

definition py_int :: "real \<Rightarrow> int" where
  "py_int x = (if 0 \<le> x then \<lfloor>x\<rfloor> else \<lceil>x\<rceil>)"

text \<open>
  \<^verbatim>\<open>
  def audio_to_stft(self, y, sample_rate):
      n_fft = int(sample_rate * (self.window_size + 1e-8))
      win_length = n_fft
      hop_length = int(sample_rate * (self.window_stride + 1e-8))
      D = librosa.stft(y, n_fft=n_fft, hop_length=hop_length,
                       win_length=win_length, window=self.window)
      spect, phase = librosa.magphase(D)
      ...
  \<close>
\<close>

definition audio_to_stft :: "externals \<Rightarrow> parser \<Rightarrow> real list \<Rightarrow> nat \<Rightarrow> exn + array2" where
  "audio_to_stft ext p y sr =
     (let n_fft = py_int (real sr * (window_size p + 1 / 10 ^ 8));
          hop_length = py_int (real sr * (window_stride p + 1 / 10 ^ 8))
      in case stft_magnitude ext y n_fft hop_length (window p) of
           Inl e \<Rightarrow> Inl e
         | Inr spect \<Rightarrow> fit_161 spect)"

subsection \<open>SpectrogramParser.normalize_audio\<close>

definition log1p :: "real \<Rightarrow> real" where
  "log1p x = ln (1 + x)"

definition amap :: "(real \<Rightarrow> real) \<Rightarrow> array2 \<Rightarrow> array2" where
  "amap f a = map (map f) a"

definition mean_list :: "real list \<Rightarrow> real" where
  "mean_list xs = sum_list xs / real (length xs)"

text \<open>\<open>spect.mean()\<close>, over all entries.\<close>

definition mean_all :: "array2 \<Rightarrow> real" where
  "mean_all a = mean_list (concat a)"

text \<open>\<open>spect.mean(dim=0, keepdim=True)\<close> and \<open>spect.std(dim=0, keepdim=True)\<close>: one value
  per column, the standard deviation with Bessel's correction.\<close>

definition column :: "array2 \<Rightarrow> nat \<Rightarrow> real list" where
  "column a t = map (\<lambda>r. r ! t) a"

definition mean_dim0 :: "array2 \<Rightarrow> real list" where
  "mean_dim0 a = map (\<lambda>t. mean_list (column a t)) [0..<ncols a]"

definition std_list :: "real list \<Rightarrow> real" where
  "std_list xs =
     sqrt (sum_list (map (\<lambda>x. (x - mean_list xs)\<^sup>2) xs) / (real (length xs) - 1))"

definition std_dim0 :: "array2 \<Rightarrow> real list" where
  "std_dim0 a = map (\<lambda>t. std_list (column a t)) [0..<ncols a]"

text \<open>
  \<^verbatim>\<open>
  if self.normalize == 'mean':
      spect = np.log1p(spect); spect = torch.FloatTensor(spect)
      mean = spect.mean(); spect.add_(-mean)
  elif self.normalize == 'norm':
      spect = np.log1p(spect); spect = torch.FloatTensor(spect)
      mean = spect.mean(); spect.add_(-mean)
      std = spect.std(dim=0, keepdim=True); spect.div_(std.mean())
  elif self.normalize == 'frame':
      spect = np.log1p(spect); spect = torch.FloatTensor(spect)
      mean = spect.mean(dim=0, keepdim=True)
      mean = torch.FloatTensor(scipy.ndimage.filters.gaussian_filter1d(mean.numpy(), 50))
      spect.add_(-mean.mean())
  elif self.normalize == 'max_frame':
      spect = np.log1p(spect * 1048576); spect = torch.FloatTensor(spect)
      mean = spect.mean(dim=0, keepdim=True)
      mean = torch.FloatTensor(scipy.ndimage.filters.gaussian_filter1d(mean.numpy(), 20))
      max_mean = mean.mean(); spect.add_(-max_mean)
  elif not self.normalize or self.normalize == 'none':
      spect = np.log1p(spect); spect = torch.FloatTensor(spect)
  else:
      raise Exception("No such normalization")
  return spect
  \<close>
\<close>

definition normalize_audio :: "externals \<Rightarrow> parser \<Rightarrow> array2 \<Rightarrow> exn + array2" where
  "normalize_audio ext p spect =
     (if normalize p = NormName ''mean'' then
        (let s = amap log1p spect; mean = mean_all s
         in Inr (amap (\<lambda>x. x + (- mean)) s))
      else if normalize p = NormName ''norm'' then
        (let s = amap log1p spect; mean = mean_all s;
             s1 = amap (\<lambda>x. x + (- mean)) s;
             std = std_dim0 s1
         in Inr (amap (\<lambda>x. x / mean_list std) s1))
      else if normalize p = NormName ''frame'' then
        (let s = amap log1p spect;
             mean = gaussian_filter1d ext (mean_dim0 s) 50
         in Inr (amap (\<lambda>x. x + (- mean_list mean)) s))
      else if normalize p = NormName ''max_frame'' then
        (let s = amap (\<lambda>x. log1p (x * 1048576)) spect;
             mean = gaussian_filter1d ext (mean_dim0 s) 20;
             max_mean = mean_list mean
         in Inr (amap (\<lambda>x. x + (- max_mean)) s))
      else if normalize p = NormFlag False \<or> normalize p = NormName [] \<or>
              normalize p = NormName ''none'' then
        Inr (amap log1p spect)
      else Inl NoSuchNormalization)"

subsection \<open>SpectrogramParser.load_audio_cache\<close>

text \<open>
  \<^verbatim>\<open>
  tempo_name, tempo = TEMPOS[tempo_id]
  chan = 'avg' if self.channel == -1 else str(self.channel)
  f_path = Path(audio_path)
  f_hash = hashlib.sha1(f_path.read_bytes()).hexdigest()[:9]
  cache_fn = Path(self.cache_path, f_hash[:2],
                  f_path.name + '.' + f_hash[2:] + '.' + tempo_name + '.' + chan + '.npy')
  cache_fn.parent.mkdir(parents=True, exist_ok=True)
  old_cache_fn = audio_path + '-' + tempo_name + '-' + chan + '.npy'
  \<close>
  \<open>cache_fn_of\<close> is the path \<open>cache_fn\<close> as a string, from the cache directory, the audio
  path, the nine digits \<open>f_hash\<close>, the name of the tempo and the channel label.
\<close>

definition chan_of :: "int \<Rightarrow> string" where
  "chan_of ch = (if ch = - 1 then ''avg'' else str_int ch)"

definition cache_fn_of :: "string \<Rightarrow> string \<Rightarrow> string \<Rightarrow> string \<Rightarrow> string \<Rightarrow> string" where
  "cache_fn_of cache_dir audio_path f_hash tempo_name chan =
     cache_dir @ ''/'' @ take 2 f_hash @ ''/'' @
     (path_name audio_path @ ''.'' @ drop 2 f_hash @ ''.'' @ tempo_name @ ''.'' @ chan
        @ ''.npy'')"

definition old_cache_fn_of :: "string \<Rightarrow> string \<Rightarrow> string \<Rightarrow> string" where
  "old_cache_fn_of audio_path tempo_name chan =
     audio_path @ ''-'' @ tempo_name @ ''-'' @ chan @ ''.npy''"

text \<open>
  \<^verbatim>\<open>
  if os.path.exists(old_cache_fn) and not os.path.exists(cache_fn):
      print(f"Moving {old_cache_fn} to {cache_fn}")
      shutil.move(old_cache_fn, cache_fn)
  spec = None
  if os.path.exists(cache_fn):
      try:
          spec = np.load(cache_fn).item()['spect']
      except Exception as e:
          import traceback
          print("Can't load file", cache_fn, 'with exception:', str(e))
          traceback.print_exc()
  return cache_fn, spec
  \<close>
\<close>

definition migrate_old :: "world \<Rightarrow> string \<Rightarrow> string \<Rightarrow> world" where
  "migrate_old w old_cache_fn cache_fn =
     (if os_path_exists w old_cache_fn \<and> \<not> os_path_exists w cache_fn
      then fst (os_rename (w\<lparr>stdout := stdout w @ [Moving old_cache_fn cache_fn]\<rparr>)
                  old_cache_fn cache_fn)
      else w)"

definition read_cache :: "world \<Rightarrow> string \<Rightarrow> world \<times> (exn + (string \<times> array2 option))" where
  "read_cache w cache_fn =
     (case files w cache_fn of
        None \<Rightarrow> (w, Inr (cache_fn, None))
      | Some f \<Rightarrow>
          (case np_load_spect f of
             Inr spec \<Rightarrow> (w, Inr (cache_fn, Some spec))
           | Inl e \<Rightarrow>
               if is_Exception e
               then (w\<lparr>stdout := stdout w @ [CantLoad cache_fn e, Traceback e]\<rparr>,
                     Inr (cache_fn, None))
               else (w, Inl e)))"

definition load_audio_cache ::
  "externals \<Rightarrow> parser \<Rightarrow> world \<Rightarrow> string \<Rightarrow> nat
     \<Rightarrow> world \<times> (exn + (string \<times> array2 option))" where
  "load_audio_cache ext p w audio_path tempo_id =
     (case TEMPOS tempo_id of
        None \<Rightarrow> (w, Inl KeyError)
      | Some (tempo_name, tempo) \<Rightarrow>
          (let chan = chan_of (channel p) in
           case files w audio_path of
             None \<Rightarrow> (w, Inl FileNotFoundError)
           | Some content \<Rightarrow>
               (let f_hash = take 9 (hexdigest (sha1 ext content));
                    cache_fn = cache_fn_of (cache_path p) audio_path f_hash tempo_name chan;
                    old_cache_fn = old_cache_fn_of audio_path tempo_name chan
                in read_cache (migrate_old w old_cache_fn cache_fn) cache_fn)))"

subsection \<open>SpectrogramParser.parse_audio\<close>

text \<open>
  On a miss:
  \<^verbatim>\<open>
  y, sample_rate = load_randomly_augmented_audio(audio_path, self.sample_rate,
                                                 channel=self.channel, tempo_range=TEMPOS[tempo_id][1])
  if self.noiseInjector:
      add_noise = np.random.binomial(1, self.noise_prob)
      if add_noise:
          y = self.noiseInjector.inject_noise(y)
  spect = self.audio_to_stft(y, sample_rate)
  spect = self.normalize_audio(spect)
  \<close>
  (the branch of \<open>if self.augment or True\<close> that is taken).  \<open>decode_augment\<close> is the audio
  \<open>y\<close>, \<open>raw_spect\<close> the result of \<open>audio_to_stft\<close>, and \<open>fresh_spect\<close> that of
  \<open>normalize_audio\<close>.  In \<open>on_miss\<close> below, an audio file that is not there leaves the audio
  tool without output, and loading that raises \<open>RuntimeError\<close>.
\<close>

definition decode_augment ::
  "externals \<Rightarrow> parser \<Rightarrow> draws \<Rightarrow> file_content \<Rightarrow> nat \<Rightarrow> exn + (real list \<times> nat)" where
  "decode_augment ext p d content tempo_id =
     (case TEMPOS tempo_id of
        None \<Rightarrow> Inl KeyError
      | Some (tempo_name, tempo_range) \<Rightarrow>
          (case load_randomly_augmented_audio ext d content (sample_rate p) tempo_range
                  (- 10, 10) (channel p) of
             Inl e \<Rightarrow> Inl e
           | Inr (y, sr) \<Rightarrow>
               if noiseInjector p \<and> add_noise d \<noteq> 0
               then (case inject_noise ext (noise_seed d) y of
                       Inl e \<Rightarrow> Inl e
                     | Inr y' \<Rightarrow> Inr (y', sr))
               else Inr (y, sr)))"

definition raw_spect ::
  "externals \<Rightarrow> parser \<Rightarrow> draws \<Rightarrow> file_content \<Rightarrow> nat \<Rightarrow> exn + array2" where
  "raw_spect ext p d content tempo_id =
     (case decode_augment ext p d content tempo_id of
        Inl e \<Rightarrow> Inl e
      | Inr (y, sr) \<Rightarrow> audio_to_stft ext p y sr)"

definition fresh_spect ::
  "externals \<Rightarrow> parser \<Rightarrow> draws \<Rightarrow> file_content \<Rightarrow> nat \<Rightarrow> exn + array2" where
  "fresh_spect ext p d content tempo_id =
     (case raw_spect ext p d content tempo_id of
        Inl e \<Rightarrow> Inl e
      | Inr spect \<Rightarrow> normalize_audio ext p spect)"

text \<open>
  \<^verbatim>\<open>
  if tempo_id == 0:
      try:
          np.save(str(cache_fn) + '.tmp.npy', {'spect': spect})
          os.rename(str(cache_fn) + '.tmp.npy', cache_fn)
      except KeyboardInterrupt:
          os.unlink(cache_fn)
  \<close>
  \<open>try_save\<close> is the \<open>try\<close> statement, under each fate of the write.  An \<open>OSError\<close> of
  \<open>np.save\<close> is not caught.
\<close>

definition on_interrupt :: "world \<Rightarrow> string \<Rightarrow> world \<times> (exn + unit)" where
  "on_interrupt w cache_fn = os_unlink w cache_fn"

definition try_save :: "write_event \<Rightarrow> world \<Rightarrow> string \<Rightarrow> array2 \<Rightarrow> world \<times> (exn + unit)" where
  "try_save ev w cache_fn spect =
     (let tmp = cache_fn @ ''.tmp.npy'';
          entry = NpyDict [(''spect'', spect)]
      in case ev of
           Completes \<Rightarrow> os_rename (np_save w tmp entry) tmp cache_fn
         | SaveOSError \<Rightarrow> (w, Inl OSError)
         | InterruptedInSave partial \<Rightarrow>
             on_interrupt (if partial then np_save w tmp Truncated else w) cache_fn
         | InterruptedBeforeRename \<Rightarrow> on_interrupt (np_save w tmp entry) cache_fn
         | InterruptedAfterRename \<Rightarrow>
             (case os_rename (np_save w tmp entry) tmp cache_fn of
                (w', Inl e) \<Rightarrow> (w', Inl e)
              | (w', Inr u) \<Rightarrow> on_interrupt w' cache_fn))"

text \<open>
  \<^verbatim>\<open>
  if self.augment and self.normalize == 'max_frame':
      spect.add_(torch.rand(1) - 0.5)
  return spect
  \<close>
\<close>

definition final_jitter :: "parser \<Rightarrow> draws \<Rightarrow> array2 \<Rightarrow> array2" where
  "final_jitter p d spect =
     (if augment p \<and> normalize p = NormName ''max_frame''
      then amap (\<lambda>x. x + (rand1 d - 1 / 2)) spect
      else spect)"

definition on_miss ::
  "externals \<Rightarrow> parser \<Rightarrow> draws \<Rightarrow> world \<Rightarrow> string \<Rightarrow> string \<Rightarrow> nat
     \<Rightarrow> world \<times> (exn + array2)" where
  "on_miss ext p d w audio_path cache_fn tempo_id =
     (case files w audio_path of
        None \<Rightarrow> (w, Inl RuntimeError)
      | Some content \<Rightarrow>
          (case fresh_spect ext p d content tempo_id of
             Inl e \<Rightarrow> (w, Inl e)
           | Inr spect \<Rightarrow>
               (case (if tempo_id = 0 then try_save (write_event d) w cache_fn spect
                      else (w, Inr ())) of
                  (w', Inl e) \<Rightarrow> (w', Inl e)
                | (w', Inr u) \<Rightarrow> (w', Inr (final_jitter p d spect)))))"

text \<open>
  \<^verbatim>\<open>
  def parse_audio(self, audio_path):
      if self.augment:
          tempo_id = random.randrange(3)
      else:
          tempo_id = 0
      cache_fn, spect = self.load_audio_cache(audio_path, tempo_id)
      if spect is None:
          ...
      if self.augment and self.normalize == 'max_frame':
          spect.add_(torch.rand(1) - 0.5)
      return spect
  \<close>
\<close>

definition tempo_choice :: "parser \<Rightarrow> draws \<Rightarrow> nat" where
  "tempo_choice p d = (if augment p then randrange3 d else 0)"

definition parse_audio ::
  "externals \<Rightarrow> parser \<Rightarrow> draws \<Rightarrow> world \<Rightarrow> string \<Rightarrow> world \<times> (exn + array2)" where
  "parse_audio ext p d w audio_path =
     (let tempo_id = tempo_choice p d in
      case load_audio_cache ext p w audio_path tempo_id of
        (w', Inl e) \<Rightarrow> (w', Inl e)
      | (w', Inr (cache_fn, spect)) \<Rightarrow>
          (case spect of
             None \<Rightarrow> on_miss ext p d w' audio_path cache_fn tempo_id
           | Some s \<Rightarrow> (w', Inr (final_jitter p d s))))"

subsection \<open>Bins of sample indices\<close>

text \<open>
  \<^verbatim>\<open>
  ids = list(range(0, len(data_source)))
  self.bins = [ids[i:i + batch_size] for i in range(0, len(ids), batch_size)]
  \<close>
  \<open>range\<close> with step 0 raises \<open>ValueError\<close>; sizes are natural numbers here.
\<close>

definition make_bins :: "nat \<Rightarrow> nat \<Rightarrow> exn + nat list list" where
  "make_bins n batch_size =
     (if batch_size = 0 then Inl ValueError
      else Inr (map (\<lambda>k. take batch_size (drop (k * batch_size) [0..<n]))
                 [0..<(n + batch_size - 1) div batch_size]))"

text \<open>The extended slice \<open>xs[offset::step]\<close> for \<open>offset \<ge> 0\<close>; a zero step raises
  \<open>ValueError\<close>.\<close>

definition stride_slice :: "nat \<Rightarrow> nat \<Rightarrow> 'a list \<Rightarrow> exn + 'a list" where
  "stride_slice offset step xs =
     (if step = 0 then Inl ValueError
      else Inr (map (\<lambda>k. xs ! (offset + k * step))
                 [0..<(length xs - offset + step - 1) div step]))"

subsection \<open>BucketingSampler\<close>

text \<open>
  \<open>np.random.shuffle\<close> draws from the generator of the process, which nothing here seeds.
  The generator is a parameter: its state is given by the sequence of the numbers it will
  deliver, the \<open>tape\<close>; a draw from \<open>[0, mx]\<close> takes the next number, brought into the
  interval, and a tape that has run out delivers 0.  The shuffle is the one of numpy:
  \<^verbatim>\<open>
  for i in reversed(range(1, n)):
      j = rk_interval(i, state)
      x[i], x[j] = x[j], x[i]
  \<close>
\<close>

fun rk_interval :: "nat \<Rightarrow> nat list \<Rightarrow> nat \<times> nat list" where
  "rk_interval mx [] = (0, [])"
| "rk_interval mx (r # tape) = (r mod (mx + 1), tape)"

definition swap :: "nat \<Rightarrow> nat \<Rightarrow> 'a list \<Rightarrow> 'a list" where
  "swap i j xs = xs[i := xs ! j, j := xs ! i]"

fun shuffle_down :: "nat \<Rightarrow> nat list \<Rightarrow> 'a list \<Rightarrow> 'a list \<times> nat list" where
  "shuffle_down 0 tape xs = (xs, tape)"
| "shuffle_down (Suc i) tape xs =
     (case rk_interval (Suc i) tape of
        (j, tape') \<Rightarrow> shuffle_down i tape' (swap (Suc i) j xs))"

definition np_random_shuffle :: "nat list \<Rightarrow> 'a list \<Rightarrow> 'a list \<times> nat list" where
  "np_random_shuffle tape xs = shuffle_down (length xs - 1) tape xs"

record bucketing_sampler =
  bs_bins :: "nat list list"

definition bucketing_sampler_init :: "nat \<Rightarrow> nat \<Rightarrow> exn + bucketing_sampler" where
  "bucketing_sampler_init n batch_size =
     (case make_bins n batch_size of
        Inl e \<Rightarrow> Inl e
      | Inr bs \<Rightarrow> Inr \<lparr> bs_bins = bs \<rparr>)"

text \<open>
  \<^verbatim>\<open>
  def shuffle(self, epoch):
      np.random.shuffle(self.bins)
  \<close>
  The sampler and the generator after the call.
\<close>

definition bucketing_sampler_shuffle ::
  "int \<Rightarrow> nat list \<Rightarrow> bucketing_sampler \<Rightarrow> bucketing_sampler \<times> nat list" where
  "bucketing_sampler_shuffle epoch tape s =
     (case np_random_shuffle tape (bs_bins s) of
        (bins', tape') \<Rightarrow> (s\<lparr>bs_bins := bins'\<rparr>, tape'))"

subsection \<open>DistributedBucketingSampler\<close>

record dist_sampler =
  ds_bins :: "nat list list"
  ds_batch_size :: nat
  num_replicas :: nat
  rank :: nat
  num_samples :: nat
  total_size :: nat

text \<open>
  \<^verbatim>\<open>
  self.num_samples = int(math.ceil(len(self.bins) * 1.0 / self.num_replicas))
  self.total_size = self.num_samples * self.num_replicas
  \<close>
  The quotient is taken exactly (the float quotient is exact enough for every bin count
  below \<open>2^53\<close>); dividing by zero replicas raises \<open>ZeroDivisionError\<close>.  The replica
  count and the rank are natural numbers, as \<open>get_world_size\<close> and \<open>get_rank\<close> give them.
\<close>

definition ceil_div :: "nat \<Rightarrow> nat \<Rightarrow> nat" where
  "ceil_div b r = (b + r - 1) div r"

definition dist_sampler_init :: "nat \<Rightarrow> nat \<Rightarrow> nat \<Rightarrow> nat \<Rightarrow> exn + dist_sampler" where
  "dist_sampler_init n batch_size replicas rk =
     (case make_bins n batch_size of
        Inl e \<Rightarrow> Inl e
      | Inr bs \<Rightarrow>
          if replicas = 0 then Inl ZeroDivisionError
          else Inr \<lparr> ds_bins = bs, ds_batch_size = batch_size, num_replicas = replicas,
                     rank = rk, num_samples = ceil_div (length bs) replicas,
                     total_size = ceil_div (length bs) replicas * replicas \<rparr>)"

text \<open>
  \<^verbatim>\<open>
  def __iter__(self):
      offset = self.rank
      bins = self.bins + self.bins[:(self.total_size - len(self.bins))]
      assert len(bins) == self.total_size
      samples = bins[offset::self.num_replicas]
      return iter(samples)
  \<close>
  \<open>padded_bins\<close> is the local list \<open>bins\<close>.  A negative slice bound would count from the
  end of the list: then the list is longer than \<open>total_size\<close> and the assertion fails.
\<close>

definition padded_bins :: "dist_sampler \<Rightarrow> nat list list" where
  "padded_bins s =
     (if length (ds_bins s) \<le> total_size s
      then ds_bins s @ take (total_size s - length (ds_bins s)) (ds_bins s)
      else ds_bins s @
           take (length (ds_bins s) - (length (ds_bins s) - total_size s)) (ds_bins s))"

definition dist_sampler_iter :: "dist_sampler \<Rightarrow> exn + nat list list" where
  "dist_sampler_iter s =
     (if length (padded_bins s) \<noteq> total_size s then Inl AssertionError
      else stride_slice (rank s) (num_replicas s) (padded_bins s))"

definition dist_sampler_len :: "dist_sampler \<Rightarrow> nat" where
  "dist_sampler_len s = num_samples s"

text \<open>
  \<^verbatim>\<open>
  def shuffle(self, epoch):
      g = torch.Generator()
      g.manual_seed(epoch)
      bin_ids = list(torch.randperm(len(self.bins), generator=g))
      self.bins = [self.bins[i] for i in bin_ids]
  \<close>
  \<open>randperm seed n\<close> stands for torch's permutation of \<open>0..n-1\<close> from a fresh generator
  with this seed; an index out of range raises \<open>IndexError\<close>.
\<close>

definition dist_sampler_shuffle ::
  "(int \<Rightarrow> nat \<Rightarrow> nat list) \<Rightarrow> int \<Rightarrow> dist_sampler \<Rightarrow> exn + dist_sampler" where
  "dist_sampler_shuffle randperm epoch s =
     (let bin_ids = randperm epoch (length (ds_bins s)) in
      if \<exists>i \<in> set bin_ids. length (ds_bins s) \<le> i then Inl IndexError
      else Inr (s\<lparr>ds_bins := map (\<lambda>i. ds_bins s ! i) bin_ids\<rparr>))"

subsection \<open>The batch collator\<close>

text \<open>A sample is \<open>(tensor, target, path)\<close>: the feature tensor with one row per frequency
  bin and one column per time frame, the label sequence, and the path of the audio file.
  \<open>tensor.size(0)\<close> is the number of rows, \<open>tensor.size(1)\<close> the length of a row.\<close>

type_synonym sample = "array2 \<times> int list \<times> string"

definition size0 :: "array2 \<Rightarrow> nat" where
  "size0 t = length t"

definition size1 :: "array2 \<Rightarrow> nat" where
  "size1 t = ncols t"

definition rectangular :: "array2 \<Rightarrow> bool" where
  "rectangular t = (\<forall>r \<in> set t. length r = ncols t)"

text \<open>\<open>max(batch, key=func)\<close>: the first element with the greatest key; \<open>ValueError\<close> on an
  empty list.\<close>

definition max_by_key :: "('a \<Rightarrow> nat) \<Rightarrow> 'a list \<Rightarrow> exn + 'a" where
  "max_by_key f xs =
     (case xs of
        [] \<Rightarrow> Inl ValueError
      | x # rest \<Rightarrow> Inr (foldl (\<lambda>m y. if f m < f y then y else m) x rest))"

text \<open>\<open>sorted(batch, key=lambda sample: sample[0].size(1), reverse=True)\<close>: a stable sort by
  decreasing key (samples with equal keys keep their order).\<close>

definition sorted_desc :: "sample list \<Rightarrow> sample list" where
  "sorted_desc batch = sort_key (\<lambda>sample. - int (size1 (fst sample))) batch"

text \<open>
  \<^verbatim>\<open>inputs[x][0].narrow(1, 0, seq_length).copy_(tensor)\<close>: the first \<open>seq_length\<close> columns of
  the zero plane \<open>inputs[x][0]\<close> of shape \<open>freq_size x max_seqlength\<close> take the tensor; the
  result is the plane.  \<open>copy_\<close> needs the row counts equal, or one source row, which it
  repeats; otherwise it raises \<open>RuntimeError\<close>, as \<open>narrow\<close> does for a length beyond the
  plane.
\<close>

definition pad_row :: "nat \<Rightarrow> real list \<Rightarrow> real list" where
  "pad_row n r = r @ replicate (n - length r) 0"

definition copy_into_plane :: "nat \<Rightarrow> nat \<Rightarrow> array2 \<Rightarrow> exn + array2" where
  "copy_into_plane freq_size max_seqlength tensor =
     (if max_seqlength < size1 tensor then Inl RuntimeError
      else if size0 tensor = freq_size then Inr (map (pad_row max_seqlength) tensor)
      else if size0 tensor = 1
        then Inr (replicate freq_size (pad_row max_seqlength (hd tensor)))
      else Inl RuntimeError)"

text \<open>
  The loop \<open>for x in range(minibatch_size)\<close> over the sorted batch.  An exception leaves
  the function, so the outputs are built sample by sample:
  \<^verbatim>\<open>
  filenames.append(sample[2])
  seq_length = tensor.size(1)
  inputs[x][0].narrow(1, 0, seq_length).copy_(tensor)
  input_percentages[x] = seq_length / float(max_seqlength)
  target_sizes[x] = len(target)
  targets.extend(target)
  \<close>
  The result is \<open>(inputs, targets, filenames, input_percentages, target_sizes)\<close>.
\<close>

type_synonym batch_out = "array2 list list \<times> int list \<times> string list \<times> real list \<times> nat list"

fun collate_loop :: "nat \<Rightarrow> nat \<Rightarrow> sample list \<Rightarrow> exn + batch_out" where
  "collate_loop freq_size max_seqlength [] = Inr ([], [], [], [], [])"
| "collate_loop freq_size max_seqlength ((tensor, target, path) # rest) =
     (case copy_into_plane freq_size max_seqlength tensor of
        Inl e \<Rightarrow> Inl e
      | Inr plane \<Rightarrow>
          if max_seqlength = 0 then Inl ZeroDivisionError
          else (case collate_loop freq_size max_seqlength rest of
                  Inl e \<Rightarrow> Inl e
                | Inr (inputs, targets, filenames, input_percentages, target_sizes) \<Rightarrow>
                    Inr ([plane] # inputs, target @ targets, path # filenames,
                         (real (size1 tensor) / real max_seqlength) # input_percentages,
                         length target # target_sizes)))"

definition collate_fn :: "sample list \<Rightarrow> exn + batch_out" where
  "collate_fn batch0 =
     (let batch = sorted_desc batch0 in
      case max_by_key (\<lambda>p. size1 (fst p)) batch of
        Inl e \<Rightarrow> Inl e
      | Inr longest \<Rightarrow>
          (let longest_sample = fst longest;
               freq_size = size0 longest_sample;
               max_seqlength = size1 longest_sample
           in collate_loop freq_size max_seqlength batch))"

subsection \<open>A concrete configuration\<close>

text \<open>
  Values of the parameters on which the model can be run: the hash function is SHA-1 at
  the three bytes \<open>abc\<close>; the audio tool returns one sample, the unit amplitude with the
  gain in decibels applied; the transform returns 161 bins, each the magnitudes of the
  samples.  The parser has the default fields, the world one audio file.
\<close>

definition demo_ext :: externals where
  "demo_ext = \<lparr> sha1 = (\<lambda>f. if f = Bytes ''abc''
                              then 0xa9993e364706816aba3e25717850c26c9cd0d89d else 0),
       sox_tempo_gain = (\<lambda>content sr tempo gain ch. Inr ([10 powr (gain / 20)], sr)),
       stft_magnitude = (\<lambda>y n_fft hop win. Inr (replicate 161 (map abs y))),
       inject_noise = (\<lambda>seed y. Inr y),
       gaussian_filter1d = (\<lambda>xs sigma. xs) \<rparr>"

definition demo_parser :: parser where
  "demo_parser = \<lparr> window_stride = 1 / 100, window_size = 2 / 100, sample_rate = 16000,
       window = ''hamming'', normalize = NormFlag False, augment = False, channel = - 1,
       cache_path = ''cache'', noiseInjector = False \<rparr>"

definition demo_draws :: draws where
  "demo_draws = \<lparr> randrange3 = 0, tempo_u = 0, gain_u = 1 / 2, add_noise = 0, noise_seed = 0,
       rand1 = 0, write_event = Completes \<rparr>"

definition demo_world :: world where
  "demo_world = \<lparr> files = [''a.wav'' \<mapsto> Bytes ''abc''], stdout = [] \<rparr>"

text \<open>Variations: a cache file that cannot be loaded at the cache path of the canonical
  variant; a cache file of the old naming scheme for the slow variant; augmentation
  switched on; a draw of the slow variant; a write interrupted inside \<open>np.save\<close>; the
  lowest gain; other draws with the same gain; a transform with two bins only; and copies
  of the audio file under another name and in another directory.\<close>

definition demo_corrupt_world :: world where
  "demo_corrupt_world =
     demo_world\<lparr>files := (files demo_world)
        (''cache/a9/a.wav.993e364.1.0.avg.npy'' \<mapsto> Bytes ''junk'')\<rparr>"

definition demo_legacy_world :: world where
  "demo_legacy_world =
     demo_world\<lparr>files := (files demo_world)
        (''a.wav-0.9-avg.npy'' \<mapsto> NpyDict [(''spect'', [[7]])])\<rparr>"

definition demo_aug_parser :: parser where
  "demo_aug_parser = demo_parser\<lparr>augment := True\<rparr>"

definition demo_slow_draws :: draws where
  "demo_slow_draws = demo_draws\<lparr>randrange3 := 1\<rparr>"

definition demo_interrupted_draws :: draws where
  "demo_interrupted_draws = demo_draws\<lparr>write_event := InterruptedInSave True\<rparr>"




definition demo_copies_world :: world where
  "demo_copies_world =
     \<lparr> files = [''a.wav'' \<mapsto> Bytes ''abc'', ''b.wav'' \<mapsto> Bytes ''abc'',
                 ''old/a.wav'' \<mapsto> Bytes ''abc''],
       stdout = [] \<rparr>"

section \<open>Properties\<close>

subsection \<open>The frequency axis\<close>









subsection \<open>The distributed sampler\<close>

lemma sum_singletons: "(\<Sum>r<(R::nat). {#g r#}) = mset (map g [0..<R])"
  by (induction R) simp_all

lemma map_nth_window:
  "n + R \<le> length xs \<Longrightarrow> map (\<lambda>r. xs ! (r + n)) [0..<R] = take R (drop n xs)"
  by (rule nth_equalityI) (simp_all add: add.commute)

lemma strides_cover:
  "m * R \<le> length xs \<Longrightarrow>
   (\<Sum>r<R. mset (map (\<lambda>k. xs ! (r + k * R)) [0..<m])) = mset (take (m * R) xs)"
proof (induction m)
  case 0
  then show ?case by simp
next
  case (Suc m)
  have le: "m * R + R \<le> length xs" using Suc.prems by (simp add: add.commute)
  have "(\<Sum>r<R. mset (map (\<lambda>k. xs ! (r + k * R)) [0..<Suc m]))
      = (\<Sum>r<R. mset (map (\<lambda>k. xs ! (r + k * R)) [0..<m])) + (\<Sum>r<R. {#xs ! (r + m * R)#})"
    by (simp add: sum.distrib [symmetric])
  also have "\<dots> = mset (take (m * R) xs) + mset (take R (drop (m * R) xs))"
    using Suc.IH le by (simp add: sum_singletons map_nth_window)
  also have "\<dots> = mset (take (m * R + R) xs)"
    by (simp add: take_add)
  finally show ?case by (simp add: add.commute)
qed

lemma set_mset_sum_lessThan:
  "set_mset (\<Sum>r<(R::nat). f r) = (\<Union>r<R. set_mset (f r))"
  by (induction R) (auto simp: lessThan_Suc)

lemma stride_count:
  assumes "r < R"
  shows "(m * R - r + R - 1) div R = (m::nat)"
proof (cases m)
  case 0
  then show ?thesis using assms by simp
next
  case (Suc m')
  have "r < m * R" using assms Suc by (simp add: trans_less_add1)
  then have "m * R - r + R - 1 = (R - 1 - r) + m * R"
    using assms by simp
  then have "(m * R - r + R - 1) div R = ((R - 1 - r) + m * R) div R"
    by (simp only:)
  also have "\<dots> = m + (R - 1 - r) div R"
    using assms by (intro div_mult_self1) simp
  also have "(R - 1 - r) div R = 0" using assms by simp
  finally show ?thesis by simp
qed

lemma padded_bins_fit:
  assumes "length (ds_bins s) \<le> total_size s"
    and "total_size s - length (ds_bins s) \<le> length (ds_bins s)"
  shows "padded_bins s = ds_bins s @ take (total_size s - length (ds_bins s)) (ds_bins s)"
    and "length (padded_bins s) = total_size s"
    and "set (padded_bins s) = set (ds_bins s)"
proof -
  show p: "padded_bins s = ds_bins s @ take (total_size s - length (ds_bins s)) (ds_bins s)"
    using assms(1) by (simp add: padded_bins_def)
  show "length (padded_bins s) = total_size s"
    using assms by (simp add: p)
  show "set (padded_bins s) = set (ds_bins s)"
    using set_take_subset [of "total_size s - length (ds_bins s)" "ds_bins s"]
    by (auto simp: p)
qed

lemma le_ceil_div_mult: "0 < r \<Longrightarrow> b \<le> ceil_div b r * r"
proof -
  assume r: "0 < r"
  have "b + r - 1 = (b + r - 1) div r * r + (b + r - 1) mod r"
    by simp
  moreover have "(b + r - 1) mod r < r" using r by simp
  ultimately have "b + r - 1 < (b + r - 1) div r * r + r" by linarith
  then show ?thesis using r by (simp add: ceil_div_def)
qed

lemma padded_bins_rank [simp]: "padded_bins (s\<lparr>rank := r\<rparr>) = padded_bins s"
  by (simp add: padded_bins_def)

text \<open>
  Claim C8, as amended.  Take a sampler with \<open>R > 0\<close> replicas over \<open>B\<close> bins whose
  \<open>num_samples\<close> and \<open>total_size\<close> are those of the constructor, and whose padding fits:
  \<open>total_size - B \<le> B\<close> (so whenever \<open>R \<le> B\<close>).  Then the padded list is the bins
  followed by the first \<open>total_size - B\<close> bins, it has \<open>ceil(B/R) * R\<close> entries, the
  iteration of rank \<open>r\<close> returns the entries \<open>r, r + R, r + 2R, ...\<close> of the padded list,
  the bins of all ranks together are the bins of the sampler as a set, and as a multiset
  they are the bins plus the repeated ones.
\<close>

theorem dist_sampler_coverage:
  assumes R: "0 < num_replicas s"
    and ns: "num_samples s = ceil_div (length (ds_bins s)) (num_replicas s)"
    and ts: "total_size s = num_samples s * num_replicas s"
    and fit: "total_size s - length (ds_bins s) \<le> length (ds_bins s)"
  shows "padded_bins s = ds_bins s @ take (total_size s - length (ds_bins s)) (ds_bins s) \<and>
    length (padded_bins s) = ceil_div (length (ds_bins s)) (num_replicas s) * num_replicas s \<and>
    (\<exists>ys. (\<forall>r < num_replicas s.
              dist_sampler_iter (s\<lparr>rank := r\<rparr>) = Inr (ys r) \<and>
              ys r = map (\<lambda>k. padded_bins s ! (r + k * num_replicas s)) [0..<num_samples s]) \<and>
           (\<Union>r < num_replicas s. set (ys r)) = set (ds_bins s) \<and>
           (\<Sum>r < num_replicas s. mset (ys r)) =
             mset (ds_bins s) + mset (take (total_size s - length (ds_bins s)) (ds_bins s)))"
proof -
  let ?R = "num_replicas s" and ?m = "num_samples s" and ?p = "padded_bins s"
  define ys where "ys r = map (\<lambda>k. ?p ! (r + k * ?R)) [0..<?m]" for r
  have le: "length (ds_bins s) \<le> total_size s"
    using le_ceil_div_mult [OF R] ns ts by simp
  note pb = padded_bins_fit [OF le fit]
  have it: "dist_sampler_iter (s\<lparr>rank := r\<rparr>) = Inr (ys r)" if "r < ?R" for r
    using that R pb(2) stride_count [OF that, of ?m]
    by (simp add: dist_sampler_iter_def stride_slice_def ys_def ts)
  have cover: "(\<Sum>r < ?R. mset (ys r)) = mset ?p"
    using strides_cover [of ?m ?R ?p] pb(2) ts by (simp add: ys_def)
  have "(\<Union>r < ?R. set (ys r)) = set_mset (\<Sum>r < ?R. mset (ys r))"
    by (simp add: set_mset_sum_lessThan)
  then have sets: "(\<Union>r < ?R. set (ys r)) = set (ds_bins s)"
    using cover pb(3) by simp
  have msets: "(\<Sum>r < ?R. mset (ys r)) =
      mset (ds_bins s) + mset (take (total_size s - length (ds_bins s)) (ds_bins s))"
    using cover pb(1) by simp
  have len: "length ?p = ceil_div (length (ds_bins s)) ?R * ?R"
    using pb(2) ns ts by simp
  have "(\<forall>r < ?R. dist_sampler_iter (s\<lparr>rank := r\<rparr>) = Inr (ys r) \<and>
            ys r = map (\<lambda>k. ?p ! (r + k * ?R)) [0..<?m]) \<and>
        (\<Union>r < ?R. set (ys r)) = set (ds_bins s) \<and>
        (\<Sum>r < ?R. mset (ys r)) =
           mset (ds_bins s) + mset (take (total_size s - length (ds_bins s)) (ds_bins s))"
    using it sets msets ys_def by simp
  then have "\<exists>ys. (\<forall>r < ?R. dist_sampler_iter (s\<lparr>rank := r\<rparr>) = Inr (ys r) \<and>
            ys r = map (\<lambda>k. ?p ! (r + k * ?R)) [0..<?m]) \<and>
        (\<Union>r < ?R. set (ys r)) = set (ds_bins s) \<and>
        (\<Sum>r < ?R. mset (ys r)) =
           mset (ds_bins s) + mset (take (total_size s - length (ds_bins s)) (ds_bins s))"
    by (rule exI [where x = ys])
  with pb(1) len show ?thesis
    by (intro conjI)
qed


theorem dist_sampler_coverage_witness:
  "dist_sampler_init 7 1 3 0 = Inr \<lparr> ds_bins = [[0], [1], [2], [3], [4], [5], [6]],
       ds_batch_size = 1, num_replicas = 3, rank = 0, num_samples = 3, total_size = 9 \<rparr> \<and>
   (let s = \<lparr> ds_bins = [[0], [1], [2], [3], [4], [5], [6]],
       ds_batch_size = 1, num_replicas = 3, rank = 0, num_samples = 3, total_size = 9 \<rparr> in
    padded_bins s = [[0], [1], [2], [3], [4], [5], [6], [0], [1]] \<and>
    dist_sampler_iter (s\<lparr>rank := 0\<rparr>) = Inr [[0], [3], [6]] \<and>
    dist_sampler_iter (s\<lparr>rank := 1\<rparr>) = Inr [[1], [4], [0]] \<and>
    dist_sampler_iter (s\<lparr>rank := 2\<rparr>) = Inr [[2], [5], [1]])"
proof -
  define s where "s = \<lparr> ds_bins = [[0], [1], [2], [3], [4], [5], [6 :: nat]],
       ds_batch_size = 1 :: nat, num_replicas = 3 :: nat, rank = 0 :: nat,
       num_samples = 3 :: nat, total_size = 9 :: nat \<rparr>"
  have init: "dist_sampler_init 7 1 3 0 = Inr s"
    unfolding s_def by code_simp
  have h: "0 < num_replicas s"
    "num_samples s = ceil_div (length (ds_bins s)) (num_replicas s)"
    "total_size s = num_samples s * num_replicas s"
    "total_size s - length (ds_bins s) \<le> length (ds_bins s)"
    by (simp_all add: s_def ceil_div_def)
  have p: "padded_bins s = [[0], [1], [2], [3], [4], [5], [6], [0], [1]]"
    using dist_sampler_coverage [OF h] by (simp add: s_def)
  from dist_sampler_coverage [OF h] obtain ys where
    ys: "\<forall>r < num_replicas s. dist_sampler_iter (s\<lparr>rank := r\<rparr>) = Inr (ys r) \<and>
           ys r = map (\<lambda>k. padded_bins s ! (r + k * num_replicas s)) [0..<num_samples s]"
    by blast
  have three: "[0..<3] = [0, 1, 2]"
    by (simp add: upt_rec)
  have "dist_sampler_iter (s\<lparr>rank := r\<rparr>) =
      Inr (map (\<lambda>k. [[0], [1], [2], [3], [4], [5], [6], [0], [1]] ! (r + k * 3)) [0, 1, 2])"
    if "r < 3" for r
    using ys that p three by (simp add: s_def)
  from this [of 0] this [of 1] this [of 2] init p show ?thesis
    unfolding Let_def s_def [symmetric] by simp
qed

text \<open>With one bin and three replicas the padded list would need three entries, a second
  copy of the bin list adds one only, and the assertion of the iteration fails.\<close>

theorem dist_sampler_padding_counterexample:
  "dist_sampler_init 1 1 3 0 = Inr \<lparr> ds_bins = [[0]], ds_batch_size = 1, num_replicas = 3,
       rank = 0, num_samples = 1, total_size = 3 \<rparr> \<and>
   ceil_div 1 3 * 3 = 3 \<and>
   length (padded_bins \<lparr> ds_bins = [[0]], ds_batch_size = 1, num_replicas = 3,
       rank = 0, num_samples = 1, total_size = 3 \<rparr>) = 2 \<and>
   dist_sampler_iter \<lparr> ds_bins = [[0]], ds_batch_size = 1, num_replicas = 3,
       rank = 0, num_samples = 1, total_size = 3 \<rparr> = Inl AssertionError"
  by (simp add: dist_sampler_init_def make_bins_def ceil_div_def padded_bins_def
      dist_sampler_iter_def)

text \<open>The padding fits whenever there are at least as many bins as replicas.  The
  constructor establishes the fields the theorem asks for, and \<open>shuffle\<close> keeps them.\<close>

lemma padding_fits:
  assumes "0 < R" and "R \<le> B"
  shows "ceil_div B R * R - B \<le> B"
proof -
  have "(B + R - 1) div R * R \<le> B + R - 1"
    by simp
  moreover have "B + R - 1 < B + R"
    using assms(1) by simp
  ultimately have "ceil_div B R * R < B + R"
    unfolding ceil_div_def by (rule le_less_trans)
  then show ?thesis
    using assms(2) by simp
qed

lemma dist_sampler_init_fields:
  assumes "dist_sampler_init n b R r = Inr s"
  shows "0 < num_replicas s \<and> rank s = r \<and>
    num_samples s = ceil_div (length (ds_bins s)) (num_replicas s) \<and>
    total_size s = num_samples s * num_replicas s"
  using assms
  by (auto simp: dist_sampler_init_def split: sum.splits if_splits)

lemma dist_sampler_shuffle_fields:
  assumes "dist_sampler_shuffle randperm epoch s = Inr s'"
    and "length (randperm epoch (length (ds_bins s))) = length (ds_bins s)"
  shows "length (ds_bins s') = length (ds_bins s) \<and> num_replicas s' = num_replicas s \<and>
    rank s' = rank s \<and> num_samples s' = num_samples s \<and> total_size s' = total_size s"
  using assms
  by (auto simp: dist_sampler_shuffle_def Let_def split: if_splits)

subsection \<open>The batch collator\<close>

lemma foldl_max_keep:
  "\<forall>y \<in> set ys. f y \<le> (f x :: nat) \<Longrightarrow> foldl (\<lambda>m y. if f m < f y then y else m) x ys = x"
  by (induction ys) auto

lemma sorted_desc_mset: "mset (sorted_desc batch) = mset batch"
  by (simp add: sorted_desc_def)

lemma sorted_desc_sorted:
  "sorted_wrt (\<lambda>a b. size1 (fst b) \<le> size1 (fst a)) (sorted_desc batch)"
proof -
  have "sorted (map (\<lambda>s. - int (size1 (fst s))) (sorted_desc batch))"
    unfolding sorted_desc_def by (rule sorted_sort_key)
  then show ?thesis
    by (simp add: sorted_map sorted_wrt_iff_nth_less)
qed

lemma max_by_key_sorted:
  assumes "xs \<noteq> []" and "sorted_wrt (\<lambda>a b. f b \<le> f a) xs"
  shows "max_by_key f xs = Inr (hd xs)"
  using assms
  by (cases xs) (simp_all add: max_by_key_def foldl_max_keep)

lemma hd_sorted_is_Max:
  assumes "xs \<noteq> []" and "sorted_wrt (\<lambda>a b. f b \<le> f a) xs"
  shows "f (hd xs) = Max (f ` set xs)"
proof -
  obtain x rest where xs: "xs = x # rest" using assms(1) by (cases xs) auto
  have "\<forall>y \<in> set xs. f y \<le> f x" using assms(2) xs by auto
  then have "Max (f ` set xs) = f x"
    using xs by (intro Max_eqI) auto
  then show ?thesis using xs by simp
qed

lemma collate_loop_ok:
  assumes "\<forall>s \<in> set xs. size0 (fst s) = F \<and> size1 (fst s) \<le> Tm" and "0 < Tm"
  shows "collate_loop F Tm xs =
    Inr (map (\<lambda>s. [map (pad_row Tm) (fst s)]) xs,
         concat (map (fst \<circ> snd) xs),
         map (snd \<circ> snd) xs,
         map (\<lambda>s. real (size1 (fst s)) / real Tm) xs,
         map (length \<circ> fst \<circ> snd) xs)"
  using assms
proof (induction xs)
  case Nil
  then show ?case by simp
next
  case (Cons s xs)
  obtain tensor target path where s: "s = (tensor, target, path)"
    by (cases s) auto
  have "copy_into_plane F Tm tensor = Inr (map (pad_row Tm) tensor)"
    using Cons.prems s by (simp add: copy_into_plane_def)
  then show ?case
    using Cons s by simp
qed

lemma pad_row_nth:
  "length r \<le> n \<Longrightarrow> t < n \<Longrightarrow> pad_row n r ! t = (if t < length r then r ! t else 0)"
  by (simp add: pad_row_def nth_append)

lemma length_pad_row: "length r \<le> n \<Longrightarrow> length (pad_row n r) = n"
  by (simp add: pad_row_def)

lemma sum_list_lengths: "sum_list (map (length \<circ> g) xs) = length (concat (map g xs))"
  by (induction xs) simp_all

text \<open>
  Claim C9.  Take a non-empty batch of \<open>N\<close> samples whose tensors all have \<open>F\<close> rows of
  equal length, at least one of them with a frame (so that \<open>T_max > 0\<close>).  The collator
  returns, for the batch sorted by decreasing time length (a permutation of the batch):
  inputs of shape \<open>[N, 1, F, T_max]\<close> holding each tensor followed by zeros, the fraction
  \<open>T_i / T_max\<close> at each sorted position, the target lengths, whose sum is the length of
  the concatenated targets, and the paths.
\<close>

theorem collate_fn_batch:
  assumes ne: "batch \<noteq> []"
    and shape: "\<forall>s \<in> set batch. size0 (fst s) = F \<and> rectangular (fst s)"
    and pos: "\<exists>s \<in> set batch. 0 < size1 (fst s)"
  shows "\<exists>inputs targets filenames input_percentages target_sizes.
    collate_fn batch = Inr (inputs, targets, filenames, input_percentages, target_sizes) \<and>
    mset (sorted_desc batch) = mset batch \<and>
    sorted_wrt (\<lambda>a b. size1 (fst b) \<le> size1 (fst a)) (sorted_desc batch) \<and>
    length inputs = length batch \<and>
    (\<forall>x < length batch. length (inputs ! x) = 1 \<and> length (inputs ! x ! 0) = F \<and>
       (\<forall>f < F. length (inputs ! x ! 0 ! f) = Max ((\<lambda>s. size1 (fst s)) ` set batch) \<and>
          (\<forall>t < Max ((\<lambda>s. size1 (fst s)) ` set batch).
             inputs ! x ! 0 ! f ! t =
               (if t < size1 (fst (sorted_desc batch ! x))
                then fst (sorted_desc batch ! x) ! f ! t else 0)))) \<and>
    length input_percentages = length batch \<and>
    (\<forall>x < length batch. input_percentages ! x =
       real (size1 (fst (sorted_desc batch ! x))) /
       real (Max ((\<lambda>s. size1 (fst s)) ` set batch))) \<and>
    target_sizes = map (\<lambda>s. length (fst (snd s))) (sorted_desc batch) \<and>
    targets = concat (map (\<lambda>s. fst (snd s)) (sorted_desc batch)) \<and>
    sum_list target_sizes = length targets \<and>
    filenames = map (\<lambda>s. snd (snd s)) (sorted_desc batch)"
proof -
  let ?T = "\<lambda>s :: sample. size1 (fst s)"
  define sb where "sb = sorted_desc batch"
  define Tm where "Tm = Max (?T ` set batch)"
  have ms: "mset sb = mset batch"
    by (simp add: sb_def sorted_desc_mset)
  then have set_sb: "set sb = set batch"
    by (rule mset_eq_setD)
  have len_sb: "length sb = length batch"
    using ms by (rule mset_eq_length)
  have sb_ne: "sb \<noteq> []"
    using len_sb ne by auto
  have srt: "sorted_wrt (\<lambda>a b. ?T b \<le> ?T a) sb"
    by (simp add: sb_def sorted_desc_sorted)
  have longest: "max_by_key ?T sb = Inr (hd sb)"
    using sb_ne srt by (rule max_by_key_sorted)
  have hd_in: "hd sb \<in> set batch"
    using sb_ne set_sb by (metis hd_in_set)
  have T_hd: "?T (hd sb) = Tm"
    using hd_sorted_is_Max [OF sb_ne srt] set_sb by (simp add: Tm_def)
  have F_hd: "size0 (fst (hd sb)) = F"
    using shape hd_in by blast
  have Tm_ge: "?T s \<le> Tm" if "s \<in> set batch" for s
    unfolding Tm_def using that by (intro Max_ge) auto
  have Tm_pos: "0 < Tm"
    using pos Tm_ge by (metis gr0I leD)
  have pre: "\<forall>s \<in> set sb. size0 (fst s) = F \<and> ?T s \<le> Tm"
    using shape Tm_ge set_sb by blast
  define inputs where "inputs = map (\<lambda>s :: sample. [map (pad_row Tm) (fst s)]) sb"
  define targets where "targets = concat (map (fst \<circ> snd) sb)"
  define filenames where "filenames = map (snd \<circ> snd) sb"
  define fractions where "fractions = map (\<lambda>s. real (?T s) / real Tm) sb"
  define sizes where "sizes = map (length \<circ> fst \<circ> snd) sb"
  have run: "collate_fn batch = Inr (inputs, targets, filenames, fractions, sizes)"
    using longest T_hd F_hd collate_loop_ok [OF pre Tm_pos]
    by (simp add: collate_fn_def Let_def sb_def [symmetric] inputs_def targets_def
        filenames_def fractions_def sizes_def)
  have planes: "length (inputs ! x) = 1 \<and> length (inputs ! x ! 0) = F \<and>
       (\<forall>f < F. length (inputs ! x ! 0 ! f) = Tm \<and>
          (\<forall>t < Tm. inputs ! x ! 0 ! f ! t =
             (if t < ?T (sb ! x) then fst (sb ! x) ! f ! t else 0)))"
    if x: "x < length batch" for x
  proof -
    let ?a = "fst (sb ! x)"
    have mem: "sb ! x \<in> set batch"
      using x len_sb set_sb by (metis nth_mem)
    have F: "length ?a = F" and rect: "rectangular ?a" and le: "?T (sb ! x) \<le> Tm"
      using shape mem Tm_ge by (auto simp: size0_def)
    have ix: "inputs ! x = [map (pad_row Tm) ?a]"
      using x len_sb by (simp add: inputs_def)
    have row: "length (?a ! f) = ?T (sb ! x)" if "f < F" for f
      using rect F that by (simp add: rectangular_def size1_def)
    show ?thesis
      using ix F row le by (simp add: length_pad_row pad_row_nth)
  qed
  have fr: "fractions ! x = real (?T (sb ! x)) / real Tm" if "x < length batch" for x
    using that len_sb by (simp add: fractions_def)
  have sum: "sum_list sizes = length targets"
    unfolding sizes_def targets_def
    by (metis comp_assoc sum_list_lengths)
  have A: "length inputs = length batch" "length fractions = length batch"
    by (simp_all add: inputs_def fractions_def len_sb)
  have B: "sizes = map (\<lambda>s. length (fst (snd s))) sb"
    "targets = concat (map (\<lambda>s. fst (snd s)) sb)"
    "filenames = map (\<lambda>s. snd (snd s)) sb"
    by (simp_all add: sizes_def targets_def filenames_def comp_def)
  show ?thesis
    apply (rule exI [where x = inputs])
    apply (rule exI [where x = targets])
    apply (rule exI [where x = filenames])
    apply (rule exI [where x = fractions])
    apply (rule exI [where x = sizes])
    apply (fold sb_def Tm_def)
    using run ms srt A B sum planes fr by blast
qed

theorem collate_fn_batch_witness:
  "\<exists>inputs targets filenames input_percentages target_sizes.
     collate_fn [([[1, 2, 3, 4, 5]], [7, 8], ''a.wav''), ([[1, 2, 3]], [9], ''b.wav''),
                 ([[1, 2, 3, 4, 5, 6, 7, 8]], [], ''c.wav'')]
       = Inr (inputs, targets, filenames, input_percentages, target_sizes) \<and>
     length inputs = 3 \<and> length (inputs ! 1 ! 0 ! 0) = 8 \<and>
     inputs ! 1 ! 0 ! 0 ! 4 = 5 \<and> inputs ! 1 ! 0 ! 0 ! 5 = 0 \<and>
     input_percentages ! 0 = 1 \<and> input_percentages ! 1 = 5 / 8 \<and>
     input_percentages ! 2 = 3 / 8 \<and>
     target_sizes = [0, 2, 1] \<and> targets = [7, 8, 9] \<and>
     sum_list target_sizes = length targets \<and>
     filenames = [''c.wav'', ''a.wav'', ''b.wav'']"
proof -
  define a :: sample where "a = ([[1, 2, 3, 4, 5]], [7, 8], ''a.wav'')"
  define b :: sample where "b = ([[1, 2, 3]], [9], ''b.wav'')"
  define c :: sample where "c = ([[1, 2, 3, 4, 5, 6, 7, 8]], [], ''c.wav'')"
  have T: "size1 (fst a) = 5" "size1 (fst b) = 3" "size1 (fst c) = 8"
    by (simp_all add: a_def b_def c_def size1_def ncols_def)
  have h1: "[a, b, c] \<noteq> []"
    by simp
  have h2: "\<forall>s \<in> set [a, b, c]. size0 (fst s) = 1 \<and> rectangular (fst s)"
    by (simp add: a_def b_def c_def size0_def rectangular_def ncols_def)
  have h3: "\<exists>s \<in> set [a, b, c]. 0 < size1 (fst s)"
    using T by simp
  have sb: "sorted_desc [a, b, c] = [c, a, b]"
    by (simp add: sorted_desc_def T)
  have mx: "Max ((\<lambda>s. size1 (fst s)) ` set [a, b, c]) = 8"
    by (simp add: T)
  obtain inputs targets filenames fr sizes where
    run: "collate_fn [a, b, c] = Inr (inputs, targets, filenames, fr, sizes)"
    and len: "length inputs = length [a, b, c]"
    and planes: "\<forall>x < length [a, b, c]. length (inputs ! x) = 1 \<and> length (inputs ! x ! 0) = 1 \<and>
       (\<forall>f < 1. length (inputs ! x ! 0 ! f) = Max ((\<lambda>s. size1 (fst s)) ` set [a, b, c]) \<and>
          (\<forall>t < Max ((\<lambda>s. size1 (fst s)) ` set [a, b, c]).
             inputs ! x ! 0 ! f ! t =
               (if t < size1 (fst (sorted_desc [a, b, c] ! x))
                then fst (sorted_desc [a, b, c] ! x) ! f ! t else 0)))"
    and fr: "\<forall>x < length [a, b, c]. fr ! x =
       real (size1 (fst (sorted_desc [a, b, c] ! x))) /
       real (Max ((\<lambda>s. size1 (fst s)) ` set [a, b, c]))"
    and rest: "sizes = map (\<lambda>s. length (fst (snd s))) (sorted_desc [a, b, c])"
      "targets = concat (map (\<lambda>s. fst (snd s)) (sorted_desc [a, b, c]))"
      "sum_list sizes = length targets"
      "filenames = map (\<lambda>s. snd (snd s)) (sorted_desc [a, b, c])"
    using collate_fn_batch [OF h1 h2 h3] by blast
  have row: "length (inputs ! 1 ! 0 ! 0) = 8"
    "\<forall>t < 8. inputs ! 1 ! 0 ! 0 ! t = (if t < 5 then [1, 2, 3, 4, 5] ! t else 0)"
    using planes [rule_format, of 1] by (simp_all add: sb mx T) (simp add: a_def)
  have "inputs ! 1 ! 0 ! 0 ! 4 = 5" "inputs ! 1 ! 0 ! 0 ! 5 = 0"
    using row(2) [rule_format, of 4] row(2) [rule_format, of 5] by simp_all
  moreover have "fr ! 0 = 1" "fr ! 1 = 5 / 8" "fr ! 2 = 3 / 8"
    using fr [rule_format, of 0] fr [rule_format, of 1] fr [rule_format, of 2]
    by (simp_all add: sb mx T)
  moreover have "sizes = [0, 2, 1]" "targets = [7, 8, 9]"
    "filenames = [''c.wav'', ''a.wav'', ''b.wav'']"
    using rest by (simp_all add: sb) (simp_all add: a_def b_def c_def)
  ultimately show ?thesis
    using run len rest(3) row(1) unfolding a_def b_def c_def by simp
qed


subsection \<open>Paths and digests\<close>

lemma split_slash_nonempty: "split_slash s \<noteq> []"
  by (induction s) (auto split: list.splits)

lemma split_slash_no_slash: "CHR ''/'' \<notin> set s \<Longrightarrow> split_slash s = [s]"
  by (induction s) auto

lemma split_slash_parts_no_slash: "part \<in> set (split_slash s) \<Longrightarrow> CHR ''/'' \<notin> set part"
proof (induction s arbitrary: part)
  case Nil
  then show ?case by simp
next
  case (Cons c cs)
  then show ?case
    by (cases "split_slash cs") (auto split: if_splits)
qed

lemma split_slash_append:
  "split_slash (x @ CHR ''/'' # y) = split_slash x @ split_slash y"
proof (induction x)
  case Nil
  then show ?case by simp
next
  case (Cons c cs)
  then show ?case
    using split_slash_nonempty [of cs]
    by (cases "split_slash cs") auto
qed

lemma path_name_no_slash: "CHR ''/'' \<notin> set (path_name p)"
proof (cases "rev (path_parts p)")
  case Nil
  then show ?thesis by (simp add: path_name_def)
next
  case (Cons part parts)
  then have "part \<in> set (path_parts p)"
    by (metis list.set_intros(1) set_rev)
  then have "part \<in> set (split_slash p)"
    by (simp add: path_parts_def)
  then show ?thesis
    using Cons by (simp add: path_name_def split_slash_parts_no_slash)
qed

lemma path_name_append:
  assumes "CHR ''/'' \<notin> set y" and "y \<noteq> []" and "y \<noteq> ''.''"
  shows "path_name (x @ CHR ''/'' # y) = y"
  using assms
  by (simp add: path_name_def path_parts_def split_slash_append split_slash_no_slash)

lemma digit_char_no_slash: "digit_char n \<noteq> CHR ''/''" "CHR ''/'' \<noteq> digit_char n"
proof -
  have "''0123456789abcdef'' ! (n mod 16) \<in> set ''0123456789abcdef''"
    by (rule nth_mem) simp
  then have "digit_char n \<in> set ''0123456789abcdef''"
    by (simp only: digit_char_def)
  then show "digit_char n \<noteq> CHR ''/''"
    by auto
  then show "CHR ''/'' \<noteq> digit_char n"
    by (rule not_sym)
qed

lemma hexdigest_no_slash: "CHR ''/'' \<notin> set (hexdigest n)"
  by (auto simp: hexdigest_def digit_char_no_slash)

lemma length_hexdigest: "length (hexdigest n) = 40"
  by (simp add: hexdigest_def)

lemma str_nat_no_slash: "CHR ''/'' \<notin> set (str_nat n)"
proof (induction n rule: str_nat.induct)
  case (1 n)
  then show ?case
    by (subst str_nat.simps) (auto simp del: str_nat.simps simp add: digit_char_no_slash)
qed

lemma chan_of_no_slash: "CHR ''/'' \<notin> set (chan_of ch)"
  using str_nat_no_slash by (auto simp: chan_of_def str_int_def)

lemma TEMPOS_name:
  "TEMPOS t = Some (tn, tr) \<Longrightarrow> tn \<in> {''1.0'', ''0.9'', ''1.1''}"
  by (auto simp: TEMPOS_def split: if_splits)

subsection \<open>The cache path is not the audio path\<close>

lemma cache_fn_not_audio:
  assumes "CHR ''/'' \<notin> set h" and "CHR ''/'' \<notin> set tn" and "CHR ''/'' \<notin> set ch"
    and "CHR ''/'' \<notin> set sfx"
  shows "cache_fn_of c a h tn ch @ sfx \<noteq> a"
proof
  define rest where "rest = ''.'' @ drop 2 h @ ''.'' @ tn @ ''.'' @ ch @ ''.npy'' @ sfx"
  define y where "y = path_name a @ rest"
  assume eq: "cache_fn_of c a h tn ch @ sfx = a"
  have "CHR ''/'' \<notin> set (drop 2 h)"
    using assms(1) by (meson in_set_dropD)
  then have ns: "CHR ''/'' \<notin> set y"
    using assms path_name_no_slash [of a] by (simp add: y_def rest_def)
  have len: "length (path_name a) < length y"
    by (simp add: y_def rest_def)
  then have ne: "y \<noteq> []" "y \<noteq> ''.''"
    by (auto simp: y_def rest_def)
  have "a = (c @ ''/'' @ take 2 h) @ CHR ''/'' # y"
    using eq by (simp add: cache_fn_of_def y_def rest_def)
  then have "path_name a = y"
    using path_name_append [OF ns ne] by metis
  then show False
    using len by simp
qed

lemma old_cache_fn_not_audio: "old_cache_fn_of a tn ch \<noteq> a"
  by (simp add: old_cache_fn_of_def)

lemma files_migrate_old:
  "x \<noteq> old \<Longrightarrow> x \<noteq> fn \<Longrightarrow> files (migrate_old w old fn) x = files w x"
  by (simp add: migrate_old_def os_rename_def os_path_exists_def split: option.splits)

lemma files_read_cache: "files (fst (read_cache w fn)) = files w"
  by (simp add: read_cache_def split: option.splits sum.splits)

lemma load_audio_cache_Inr:
  assumes "load_audio_cache ext p w a t = (w', Inr (fn, c))"
  obtains tn tr content where "TEMPOS t = Some (tn, tr)" and "files w a = Some content"
    and "fn = cache_fn_of (cache_path p) a (take 9 (hexdigest (sha1 ext content))) tn
                (chan_of (channel p))"
    and "read_cache (migrate_old w (old_cache_fn_of a tn (chan_of (channel p))) fn) fn
           = (w', Inr (fn, c))"
proof -
  obtain tn tr where T: "TEMPOS t = Some (tn, tr)"
    using assms by (cases "TEMPOS t") (auto simp: load_audio_cache_def)
  obtain content where C: "files w a = Some content"
    using assms T by (cases "files w a") (auto simp: load_audio_cache_def)
  define fn' where "fn' = cache_fn_of (cache_path p) a (take 9 (hexdigest (sha1 ext content))) tn
                (chan_of (channel p))"
  have R: "read_cache (migrate_old w (old_cache_fn_of a tn (chan_of (channel p))) fn') fn'
           = (w', Inr (fn, c))"
    using assms T C by (simp add: load_audio_cache_def Let_def fn'_def)
  then have "fn = fn'"
    by (auto simp: read_cache_def split: option.splits sum.splits if_splits)
  with T C R that show thesis
    unfolding fn'_def by blast
qed

lemma cache_fn_slash_free:
  assumes "TEMPOS t = Some (tn, tr)"
  shows "cache_fn_of c a (take 9 (hexdigest n)) tn (chan_of ch) \<noteq> a"
    and "cache_fn_of c a (take 9 (hexdigest n)) tn (chan_of ch) @ ''.tmp.npy'' \<noteq> a"
proof -
  have h: "CHR ''/'' \<notin> set (take 9 (hexdigest n))"
    using hexdigest_no_slash by (meson in_set_takeD)
  have t: "CHR ''/'' \<notin> set tn"
    using TEMPOS_name [OF assms] by auto
  show "cache_fn_of c a (take 9 (hexdigest n)) tn (chan_of ch) \<noteq> a"
    using cache_fn_not_audio [OF h t chan_of_no_slash, of "[]"] by simp
  show "cache_fn_of c a (take 9 (hexdigest n)) tn (chan_of ch) @ ''.tmp.npy'' \<noteq> a"
    using cache_fn_not_audio [OF h t chan_of_no_slash, of "''.tmp.npy''"] by simp
qed

lemma load_audio_cache_keeps_audio:
  assumes "load_audio_cache ext p w a t = (w', Inr (fn, c))"
  shows "files w' a = files w a" and "fn \<noteq> a" and "fn @ ''.tmp.npy'' \<noteq> a"
proof -
  from assms obtain tn tr content where T: "TEMPOS t = Some (tn, tr)"
    and fn: "fn = cache_fn_of (cache_path p) a (take 9 (hexdigest (sha1 ext content))) tn
                (chan_of (channel p))"
    and R: "read_cache (migrate_old w (old_cache_fn_of a tn (chan_of (channel p))) fn) fn
           = (w', Inr (fn, c))"
    by (rule load_audio_cache_Inr)
  show ne: "fn \<noteq> a" and "fn @ ''.tmp.npy'' \<noteq> a"
    using cache_fn_slash_free [OF T] by (simp_all add: fn)
  have "files w' = files (migrate_old w (old_cache_fn_of a tn (chan_of (channel p))) fn)"
    using files_read_cache [of "migrate_old w (old_cache_fn_of a tn (chan_of (channel p))) fn" fn] R
    by simp
  then show "files w' a = files w a"
    using ne old_cache_fn_not_audio [of a tn "chan_of (channel p)"]
    by (simp add: files_migrate_old)
qed

subsection \<open>What a miss stores\<close>

lemma try_save_Completes:
  "try_save Completes w fn spect =
     (w\<lparr>files := ((files w)(fn @ ''.tmp.npy'' := None))(fn \<mapsto> NpyDict [(''spect'', spect)])\<rparr>,
      Inr ())"
  by (simp add: try_save_def np_save_def os_rename_def)

lemma load_audio_cache_hit:
  assumes T: "TEMPOS t = Some (tn, tr)"
    and C: "files w a = Some content"
    and fn: "fn = cache_fn_of (cache_path p) a (take 9 (hexdigest (sha1 ext content))) tn
                (chan_of (channel p))"
    and F: "files w fn = Some f"
    and L: "np_load_spect f = Inr spect"
  shows "load_audio_cache ext p w a t = (w, Inr (fn, Some spect))"
  using assms
  by (simp add: load_audio_cache_def Let_def migrate_old_def os_path_exists_def read_cache_def)

lemma np_load_spect_saved: "np_load_spect (NpyDict [(''spect'', spect)]) = Inr spect"
  by (simp add: np_load_spect_def)

text \<open>
  Claim C1, as amended.  On a miss of the cache for the canonical tempo variant (tempo id 0)
  whose write completes, \<open>parse_audio\<close> stores in the cache file the spectrogram after
  normalization, the value it returns (before the jitter); a later call with tempo id 0
  finds this value in the cache and returns it as it is, with no normalization applied
  to it.
\<close>

theorem parse_audio_caches_normalized:
  assumes t0: "tempo_choice p d = 0"
    and miss: "load_audio_cache ext p w a 0 = (w1, Inr (fn, None))"
    and content: "files w a = Some content"
    and raw: "raw_spect ext p d content 0 = Inr raw"
    and norm: "normalize_audio ext p raw = Inr spect"
    and ev: "write_event d = Completes"
  shows "\<exists>w2. parse_audio ext p d w a = (w2, Inr (final_jitter p d spect)) \<and>
    files w2 fn = Some (NpyDict [(''spect'', spect)]) \<and>
    (\<forall>d'. tempo_choice p d' = 0 \<longrightarrow>
       load_audio_cache ext p w2 a 0 = (w2, Inr (fn, Some spect)) \<and>
       parse_audio ext p d' w2 a = (w2, Inr (final_jitter p d' spect)))"
proof -
  define w2 where "w2 = w1\<lparr>files := ((files w1)(fn @ ''.tmp.npy'' := None))
                                   (fn \<mapsto> NpyDict [(''spect'', spect)])\<rparr>"
  note keep = load_audio_cache_keeps_audio [OF miss]
  have c1: "files w1 a = Some content"
    using keep(1) content by simp
  have fresh: "fresh_spect ext p d content 0 = Inr spect"
    using raw norm by (simp add: fresh_spect_def)
  have run: "parse_audio ext p d w a = (w2, Inr (final_jitter p d spect))"
    using t0 miss c1 fresh ev
    by (simp add: parse_audio_def on_miss_def try_save_Completes w2_def)
  have stored: "files w2 fn = Some (NpyDict [(''spect'', spect)])"
    by (simp add: w2_def)
  have c2: "files w2 a = Some content"
    using c1 keep(2,3) by (simp add: w2_def)
  from miss obtain tn tr content' where T: "TEMPOS 0 = Some (tn, tr)"
    and C': "files w a = Some content'"
    and fn: "fn = cache_fn_of (cache_path p) a (take 9 (hexdigest (sha1 ext content'))) tn
                (chan_of (channel p))"
    by (rule load_audio_cache_Inr)
  have fn': "fn = cache_fn_of (cache_path p) a (take 9 (hexdigest (sha1 ext content))) tn
                (chan_of (channel p))"
    using fn C' content by simp
  have hit: "load_audio_cache ext p w2 a 0 = (w2, Inr (fn, Some spect))"
    using load_audio_cache_hit [OF T c2 fn' stored np_load_spect_saved] .
  have again: "parse_audio ext p d' w2 a = (w2, Inr (final_jitter p d' spect))"
    if "tempo_choice p d' = 0" for d'
    using that hit by (simp add: parse_audio_def)
  show ?thesis
    using run stored hit again by blast
qed

subsection \<open>Running the concrete configuration\<close>

lemma demo_hash: "take 9 (hexdigest (sha1 demo_ext (Bytes ''abc''))) = ''a9993e364''"
proof -
  have "sha1 demo_ext (Bytes ''abc'') = 0xa9993e364706816aba3e25717850c26c9cd0d89d"
    by (simp add: demo_ext_def)
  then show ?thesis
    by (simp add: hexdigest_def upt_rec digit_char_def)
qed

lemma demo_name: "path_name ''a.wav'' = ''a.wav''" "path_name ''b.wav'' = ''b.wav''"
  by (simp_all add: path_name_def path_parts_def)

lemma demo_load_audio_cache:
  assumes "files w ''a.wav'' = Some (Bytes ''abc'')"
    and "channel p = - 1" and "cache_path p = ''cache''"
  shows "load_audio_cache demo_ext p w ''a.wav'' 0 =
      read_cache (migrate_old w ''a.wav-1.0-avg.npy'' ''cache/a9/a.wav.993e364.1.0.avg.npy'')
        ''cache/a9/a.wav.993e364.1.0.avg.npy''"
    and "load_audio_cache demo_ext p w ''a.wav'' 1 =
      read_cache (migrate_old w ''a.wav-0.9-avg.npy'' ''cache/a9/a.wav.993e364.0.9.avg.npy'')
        ''cache/a9/a.wav.993e364.0.9.avg.npy''"
  using assms
  by (simp_all add: load_audio_cache_def TEMPOS_def chan_of_def demo_hash cache_fn_of_def
      demo_name old_cache_fn_of_def Let_def)

lemma demo_raw:
  assumes "sample_rate p = 16000" and "channel p = - 1" and "noiseInjector p = False"
    and "gain_u d = 1 / 2"
  shows "raw_spect demo_ext p d (Bytes ''abc'') 0 = Inr (replicate 161 [1])"
proof -
  have g: "fmt3 (np_random_uniform (- 10) 10 (gain_u d)) = 0"
    by (simp add: assms np_random_uniform_def fmt3_def)
  have t: "fmt3 (np_random_uniform 1 1 (tempo_u d)) = 1"
    by (simp add: np_random_uniform_def fmt3_def)
  show ?thesis
    using assms(1-3)
    by (simp add: raw_spect_def decode_augment_def TEMPOS_def load_randomly_augmented_audio_def
        augment_audio_with_sox_def g t demo_ext_def audio_to_stft_def fit_161_def)
qed

lemma demo_normalize:
  assumes "normalize p = NormFlag False"
  shows "normalize_audio ext p (replicate 161 [x]) = Inr (replicate 161 [log1p x])"
  using assms by (simp add: normalize_audio_def amap_def)

lemma log1p_1: "log1p 1 \<noteq> 1"
  using ln_add_one_self_less_self [of 1] by (simp add: log1p_def)

lemma demo_miss:
  "load_audio_cache demo_ext demo_parser demo_world ''a.wav'' 0 =
     (demo_world, Inr (''cache/a9/a.wav.993e364.1.0.avg.npy'', None))"
proof -
  have "load_audio_cache demo_ext demo_parser demo_world ''a.wav'' 0 =
      read_cache (migrate_old demo_world ''a.wav-1.0-avg.npy''
                    ''cache/a9/a.wav.993e364.1.0.avg.npy'')
        ''cache/a9/a.wav.993e364.1.0.avg.npy''"
    by (rule demo_load_audio_cache) (simp_all add: demo_world_def demo_parser_def)
  then show ?thesis
    by (simp add: migrate_old_def read_cache_def os_path_exists_def demo_world_def)
qed

lemma demo_fresh:
  "fresh_spect demo_ext demo_parser demo_draws (Bytes ''abc'') 0 = Inr (replicate 161 [log1p 1])"
proof -
  have "raw_spect demo_ext demo_parser demo_draws (Bytes ''abc'') 0 = Inr (replicate 161 [1])"
    by (rule demo_raw) (simp_all add: demo_parser_def demo_draws_def)
  moreover have "normalize_audio demo_ext demo_parser (replicate 161 [1])
      = Inr (replicate 161 [log1p 1])"
    by (rule demo_normalize) (simp add: demo_parser_def)
  ultimately show ?thesis
    by (simp add: fresh_spect_def)
qed

lemma demo_parse_audio:
  "parse_audio demo_ext demo_parser demo_draws demo_world ''a.wav'' =
     (demo_world\<lparr>files := ((files demo_world)(''cache/a9/a.wav.993e364.1.0.avg.npy.tmp.npy'' := None))
          (''cache/a9/a.wav.993e364.1.0.avg.npy'' \<mapsto> NpyDict [(''spect'', replicate 161 [log1p 1])])\<rparr>,
      Inr (replicate 161 [log1p 1]))"
proof -
  have "tempo_choice demo_parser demo_draws = 0"
    by (simp add: tempo_choice_def demo_parser_def)
  moreover have "files demo_world ''a.wav'' = Some (Bytes ''abc'')"
    by (simp add: demo_world_def)
  moreover have "write_event demo_draws = Completes"
    by (simp add: demo_draws_def)
  moreover have "final_jitter demo_parser demo_draws s = s" for s
    by (simp add: final_jitter_def demo_parser_def)
  ultimately show ?thesis
    using demo_miss demo_fresh
    by (simp add: parse_audio_def on_miss_def try_save_Completes)
qed

text \<open>The raw spectrogram of the concrete configuration has the entries 1; the cache
  file written on the miss has the entries \<open>log1p 1\<close>.\<close>

theorem parse_audio_caches_raw_counterexample:
  "raw_spect demo_ext demo_parser demo_draws (Bytes ''abc'') 0 = Inr (replicate 161 [1]) \<and>
   files (fst (parse_audio demo_ext demo_parser demo_draws demo_world ''a.wav''))
     ''cache/a9/a.wav.993e364.1.0.avg.npy''
     = Some (NpyDict [(''spect'', replicate 161 [log1p 1])]) \<and>
   replicate 161 [log1p 1] \<noteq> replicate 161 [1]"
proof -
  have "raw_spect demo_ext demo_parser demo_draws (Bytes ''abc'') 0 = Inr (replicate 161 [1])"
    by (rule demo_raw) (simp_all add: demo_parser_def demo_draws_def)
  moreover have "files (fst (parse_audio demo_ext demo_parser demo_draws demo_world ''a.wav''))
     ''cache/a9/a.wav.993e364.1.0.avg.npy''
     = Some (NpyDict [(''spect'', replicate 161 [log1p 1])])"
    by (simp add: demo_parse_audio)
  moreover have "replicate 161 [log1p 1] \<noteq> replicate 161 [1::real]"
    using log1p_1 by (simp add: replicate_eq_replicate)
  ultimately show ?thesis by simp
qed

theorem parse_audio_caches_normalized_witness:
  "tempo_choice demo_parser demo_draws = 0 \<and>
   load_audio_cache demo_ext demo_parser demo_world ''a.wav'' 0 =
     (demo_world, Inr (''cache/a9/a.wav.993e364.1.0.avg.npy'', None)) \<and>
   files demo_world ''a.wav'' = Some (Bytes ''abc'') \<and>
   raw_spect demo_ext demo_parser demo_draws (Bytes ''abc'') 0 = Inr (replicate 161 [1]) \<and>
   normalize_audio demo_ext demo_parser (replicate 161 [1]) = Inr (replicate 161 [log1p 1]) \<and>
   write_event demo_draws = Completes \<and>
   (\<exists>w2. parse_audio demo_ext demo_parser demo_draws demo_world ''a.wav''
            = (w2, Inr (replicate 161 [log1p 1])) \<and>
         files w2 ''cache/a9/a.wav.993e364.1.0.avg.npy''
            = Some (NpyDict [(''spect'', replicate 161 [log1p 1])]) \<and>
         parse_audio demo_ext demo_parser demo_draws w2 ''a.wav''
            = (w2, Inr (replicate 161 [log1p 1])))"
proof -
  have h1: "tempo_choice demo_parser demo_draws = 0"
    by (simp add: tempo_choice_def demo_parser_def)
  have h3: "files demo_world ''a.wav'' = Some (Bytes ''abc'')"
    by (simp add: demo_world_def)
  have h4: "raw_spect demo_ext demo_parser demo_draws (Bytes ''abc'') 0 = Inr (replicate 161 [1])"
    by (rule demo_raw) (simp_all add: demo_parser_def demo_draws_def)
  have h5: "normalize_audio demo_ext demo_parser (replicate 161 [1])
      = Inr (replicate 161 [log1p 1])"
    by (rule demo_normalize) (simp add: demo_parser_def)
  have h6: "write_event demo_draws = Completes"
    by (simp add: demo_draws_def)
  have j: "final_jitter demo_parser demo_draws s = s" for s
    by (simp add: final_jitter_def demo_parser_def)
  from parse_audio_caches_normalized [OF h1 demo_miss h3 h4 h5 h6]
  obtain w2 where "parse_audio demo_ext demo_parser demo_draws demo_world ''a.wav''
            = (w2, Inr (replicate 161 [log1p 1]))"
    and "files w2 ''cache/a9/a.wav.993e364.1.0.avg.npy''
            = Some (NpyDict [(''spect'', replicate 161 [log1p 1])])"
    and "parse_audio demo_ext demo_parser demo_draws w2 ''a.wav''
            = (w2, Inr (replicate 161 [log1p 1]))"
    using h1 by (auto simp: j)
  then show ?thesis
    using h1 demo_miss h3 h4 h5 h6 by blast
qed

subsection \<open>A cache file that cannot be loaded\<close>








subsection \<open>When the cache is written\<close>

text \<open>
  Claim C6, as amended.  After \<open>load_audio_cache\<close> has returned, \<open>parse_audio\<close> changes the
  file system exactly when the call is a miss on tempo id 0 whose spectrogram could be
  computed: then, the write completing, the cache file holds this spectrogram.  On a hit,
  for every tempo id, the cached spectrogram is returned and nothing is computed or
  written; on a miss for tempo id 1 or 2 the spectrogram is computed anew and nothing is
  written.
\<close>

theorem parse_audio_saves_on_canonical_miss_only:
  assumes L: "load_audio_cache ext p w a (tempo_choice p d) = (w1, Inr (fn, c))"
    and C: "files w a = Some content"
  shows "(\<forall>s. c = Some s \<longrightarrow> parse_audio ext p d w a = (w1, Inr (final_jitter p d s))) \<and>
    (c = None \<and> tempo_choice p d \<noteq> 0 \<longrightarrow>
       parse_audio ext p d w a =
         (w1, case fresh_spect ext p d content (tempo_choice p d) of
                Inl e \<Rightarrow> Inl e
              | Inr s \<Rightarrow> Inr (final_jitter p d s))) \<and>
    (\<forall>spect. c = None \<and> tempo_choice p d = 0 \<and>
         fresh_spect ext p d content 0 = Inr spect \<and> write_event d = Completes \<longrightarrow>
       parse_audio ext p d w a =
         (w1\<lparr>files := ((files w1)(fn @ ''.tmp.npy'' := None))
                 (fn \<mapsto> NpyDict [(''spect'', spect)])\<rparr>,
          Inr (final_jitter p d spect))) \<and>
    (\<forall>e. c = None \<and> fresh_spect ext p d content (tempo_choice p d) = Inl e \<longrightarrow>
       parse_audio ext p d w a = (w1, Inl e)) \<and>
    (tempo_choice p d \<noteq> 0 \<longrightarrow> fst (parse_audio ext p d w a) = w1)"
proof -
  have c1: "files w1 a = Some content"
    using load_audio_cache_keeps_audio(1) [OF L] C by simp
  have hit: "parse_audio ext p d w a = (w1, Inr (final_jitter p d s))" if "c = Some s" for s
    using L that by (simp add: parse_audio_def)
  have miss: "parse_audio ext p d w a = on_miss ext p d w1 a fn (tempo_choice p d)"
    if "c = None"
    using L that by (simp add: parse_audio_def)
  have other: "parse_audio ext p d w a =
         (w1, case fresh_spect ext p d content (tempo_choice p d) of
                Inl e \<Rightarrow> Inl e
              | Inr s \<Rightarrow> Inr (final_jitter p d s))"
    if "c = None" and "tempo_choice p d \<noteq> 0"
    using miss [OF that(1)] that(2) c1 by (simp add: on_miss_def split: sum.splits)
  have saved: "parse_audio ext p d w a =
         (w1\<lparr>files := ((files w1)(fn @ ''.tmp.npy'' := None))
                 (fn \<mapsto> NpyDict [(''spect'', spect)])\<rparr>,
          Inr (final_jitter p d spect))"
    if "c = None" and "tempo_choice p d = 0" and "fresh_spect ext p d content 0 = Inr spect"
      and "write_event d = Completes" for spect
    using miss [OF that(1)] that(2-4) c1 by (simp add: on_miss_def try_save_Completes)
  have failed: "parse_audio ext p d w a = (w1, Inl e)"
    if "c = None" and "fresh_spect ext p d content (tempo_choice p d) = Inl e" for e
    using miss [OF that(1)] that(2) c1 by (simp add: on_miss_def)
  have unchanged: "fst (parse_audio ext p d w a) = w1" if "tempo_choice p d \<noteq> 0"
  proof (cases c)
    case None
    then show ?thesis using other that by simp
  next
    case (Some s)
    then show ?thesis using hit by simp
  qed
  show ?thesis
    using hit other saved failed unchanged by blast
qed

lemma demo_raw1:
  assumes "sample_rate p = 16000" and "noiseInjector p = False" and "gain_u d = 1 / 2"
  shows "raw_spect demo_ext p d (Bytes ''abc'') 1 = Inr (replicate 161 [1])"
proof -
  have g: "fmt3 (np_random_uniform (- 10) 10 (gain_u d)) = 0"
    by (simp add: assms np_random_uniform_def fmt3_def)
  show ?thesis
    using assms(1,2)
    by (simp add: raw_spect_def decode_augment_def TEMPOS_def load_randomly_augmented_audio_def
        augment_audio_with_sox_def g demo_ext_def audio_to_stft_def fit_161_def)
qed

lemma demo_aug_fresh1:
  "fresh_spect demo_ext demo_aug_parser demo_slow_draws (Bytes ''abc'') 1
     = Inr (replicate 161 [log1p 1])"
proof -
  have "raw_spect demo_ext demo_aug_parser demo_slow_draws (Bytes ''abc'') 1
      = Inr (replicate 161 [1])"
    by (rule demo_raw1)
      (simp_all add: demo_aug_parser_def demo_parser_def demo_slow_draws_def demo_draws_def)
  moreover have "normalize_audio demo_ext demo_aug_parser (replicate 161 [1])
      = Inr (replicate 161 [log1p 1])"
    by (rule demo_normalize) (simp add: demo_aug_parser_def demo_parser_def)
  ultimately show ?thesis
    by (simp add: fresh_spect_def)
qed

lemma demo_aug_choice: "tempo_choice demo_aug_parser demo_slow_draws = 1"
  by (simp add: tempo_choice_def demo_aug_parser_def demo_slow_draws_def)

lemma demo_aug_jitter: "final_jitter demo_aug_parser d s = s"
  by (simp add: final_jitter_def demo_aug_parser_def demo_parser_def)

lemma demo_legacy_hit:
  "load_audio_cache demo_ext demo_aug_parser demo_legacy_world ''a.wav'' 1 =
     (demo_world\<lparr>files := (files demo_world)
          (''cache/a9/a.wav.993e364.0.9.avg.npy'' \<mapsto> NpyDict [(''spect'', [[7]])]),
        stdout := [Moving ''a.wav-0.9-avg.npy'' ''cache/a9/a.wav.993e364.0.9.avg.npy'']\<rparr>,
      Inr (''cache/a9/a.wav.993e364.0.9.avg.npy'', Some [[7]]))"
proof -
  have "load_audio_cache demo_ext demo_aug_parser demo_legacy_world ''a.wav'' 1 =
      read_cache (migrate_old demo_legacy_world ''a.wav-0.9-avg.npy''
                    ''cache/a9/a.wav.993e364.0.9.avg.npy'')
        ''cache/a9/a.wav.993e364.0.9.avg.npy''"
    by (rule demo_load_audio_cache)
      (simp_all add: demo_legacy_world_def demo_world_def demo_aug_parser_def demo_parser_def)
  moreover have "migrate_old demo_legacy_world ''a.wav-0.9-avg.npy''
                    ''cache/a9/a.wav.993e364.0.9.avg.npy'' =
     demo_world\<lparr>files := (files demo_world)
          (''cache/a9/a.wav.993e364.0.9.avg.npy'' \<mapsto> NpyDict [(''spect'', [[7]])]),
        stdout := [Moving ''a.wav-0.9-avg.npy'' ''cache/a9/a.wav.993e364.0.9.avg.npy'']\<rparr>"
    by (simp add: migrate_old_def os_path_exists_def os_rename_def demo_legacy_world_def
        demo_world_def fun_upd_twist)
  ultimately show ?thesis
    by (simp add: read_cache_def np_load_spect_def)
qed

lemma demo_aug_miss:
  "load_audio_cache demo_ext demo_aug_parser demo_world ''a.wav'' 1 =
     (demo_world, Inr (''cache/a9/a.wav.993e364.0.9.avg.npy'', None))"
proof -
  have "load_audio_cache demo_ext demo_aug_parser demo_world ''a.wav'' 1 =
      read_cache (migrate_old demo_world ''a.wav-0.9-avg.npy''
                    ''cache/a9/a.wav.993e364.0.9.avg.npy'')
        ''cache/a9/a.wav.993e364.0.9.avg.npy''"
    by (rule demo_load_audio_cache)
      (simp_all add: demo_world_def demo_aug_parser_def demo_parser_def)
  then show ?thesis
    by (simp add: migrate_old_def read_cache_def os_path_exists_def demo_world_def)
qed

text \<open>A cache file of the old naming scheme for the slow variant: the call moves it into
  the cache directory and returns its content; the spectrogram is not computed.\<close>

theorem parse_audio_tempo1_counterexample:
  "tempo_choice demo_aug_parser demo_slow_draws = 1 \<and>
   files demo_legacy_world ''cache/a9/a.wav.993e364.0.9.avg.npy'' = None \<and>
   files (fst (parse_audio demo_ext demo_aug_parser demo_slow_draws
                 demo_legacy_world ''a.wav''))
      ''cache/a9/a.wav.993e364.0.9.avg.npy'' = Some (NpyDict [(''spect'', [[7]])]) \<and>
   snd (parse_audio demo_ext demo_aug_parser demo_slow_draws
          demo_legacy_world ''a.wav'') = Inr [[7]] \<and>
   fresh_spect demo_ext demo_aug_parser demo_slow_draws (Bytes ''abc'') 1
     = Inr (replicate 161 [log1p 1]) \<and>
   [[7]] \<noteq> replicate 161 [log1p 1]"
proof -
  have "parse_audio demo_ext demo_aug_parser demo_slow_draws
          demo_legacy_world ''a.wav'' =
     (demo_world\<lparr>files := (files demo_world)
          (''cache/a9/a.wav.993e364.0.9.avg.npy'' \<mapsto> NpyDict [(''spect'', [[7]])]),
        stdout := [Moving ''a.wav-0.9-avg.npy'' ''cache/a9/a.wav.993e364.0.9.avg.npy'']\<rparr>,
      Inr [[7]])"
    by (simp add: parse_audio_def demo_aug_choice demo_legacy_hit demo_aug_jitter
        del: One_nat_def)
  moreover have "files demo_legacy_world ''cache/a9/a.wav.993e364.0.9.avg.npy'' = None"
    by (simp add: demo_legacy_world_def demo_world_def)
  moreover have "[[7]] \<noteq> replicate 161 [log1p 1]"
  proof
    assume "[[7]] = replicate 161 [log1p 1]"
    then have "length [[7 :: real]] = length (replicate 161 [log1p 1])"
      by (rule arg_cong)
    then show False by simp
  qed
  ultimately show ?thesis
    using demo_aug_choice demo_aug_fresh1 by (simp del: One_nat_def)
qed

theorem parse_audio_saves_on_canonical_miss_only_witness:
  "parse_audio demo_ext demo_aug_parser demo_slow_draws demo_legacy_world
       ''a.wav'' =
     (demo_world\<lparr>files := (files demo_world)
          (''cache/a9/a.wav.993e364.0.9.avg.npy'' \<mapsto> NpyDict [(''spect'', [[7]])]),
        stdout := [Moving ''a.wav-0.9-avg.npy'' ''cache/a9/a.wav.993e364.0.9.avg.npy'']\<rparr>,
      Inr [[7]]) \<and>
   parse_audio demo_ext demo_aug_parser demo_slow_draws demo_world ''a.wav'' =
     (demo_world, Inr (replicate 161 [log1p 1])) \<and>
   parse_audio demo_ext demo_parser demo_draws demo_world ''a.wav'' =
     (demo_world\<lparr>files := ((files demo_world)
          (''cache/a9/a.wav.993e364.1.0.avg.npy.tmp.npy'' := None))
          (''cache/a9/a.wav.993e364.1.0.avg.npy'' \<mapsto>
             NpyDict [(''spect'', replicate 161 [log1p 1])])\<rparr>,
      Inr (replicate 161 [log1p 1]))"
proof -
  let ?d1 = "demo_slow_draws"
  have legacy: "files demo_legacy_world ''a.wav'' = Some (Bytes ''abc'')"
    by (simp add: demo_legacy_world_def demo_world_def)
  have plain: "files demo_world ''a.wav'' = Some (Bytes ''abc'')"
    by (simp add: demo_world_def)
  have t0: "tempo_choice demo_parser demo_draws = 0"
    by (simp add: tempo_choice_def demo_parser_def)
  have ev: "write_event demo_draws = Completes"
    by (simp add: demo_draws_def)
  have j0: "final_jitter demo_parser demo_draws s = s" for s
    by (simp add: final_jitter_def demo_parser_def)
  have L1: "load_audio_cache demo_ext demo_aug_parser demo_legacy_world ''a.wav''
      (tempo_choice demo_aug_parser ?d1) =
     (demo_world\<lparr>files := (files demo_world)
          (''cache/a9/a.wav.993e364.0.9.avg.npy'' \<mapsto> NpyDict [(''spect'', [[7]])]),
        stdout := [Moving ''a.wav-0.9-avg.npy'' ''cache/a9/a.wav.993e364.0.9.avg.npy'']\<rparr>,
      Inr (''cache/a9/a.wav.993e364.0.9.avg.npy'', Some [[7]]))"
    by (simp add: demo_aug_choice demo_legacy_hit del: One_nat_def)
  have L2: "load_audio_cache demo_ext demo_aug_parser demo_world ''a.wav''
      (tempo_choice demo_aug_parser ?d1) =
     (demo_world, Inr (''cache/a9/a.wav.993e364.0.9.avg.npy'', None))"
    by (simp add: demo_aug_choice demo_aug_miss del: One_nat_def)
  have L3: "load_audio_cache demo_ext demo_parser demo_world ''a.wav''
      (tempo_choice demo_parser demo_draws) =
     (demo_world, Inr (''cache/a9/a.wav.993e364.1.0.avg.npy'', None))"
    by (simp add: t0 demo_miss)
  have "parse_audio demo_ext demo_aug_parser ?d1 demo_legacy_world ''a.wav'' =
     (demo_world\<lparr>files := (files demo_world)
          (''cache/a9/a.wav.993e364.0.9.avg.npy'' \<mapsto> NpyDict [(''spect'', [[7]])]),
        stdout := [Moving ''a.wav-0.9-avg.npy'' ''cache/a9/a.wav.993e364.0.9.avg.npy'']\<rparr>,
      Inr [[7]])"
    using parse_audio_saves_on_canonical_miss_only [OF L1 legacy]
    by (simp add: demo_aug_jitter)
  moreover have "parse_audio demo_ext demo_aug_parser ?d1 demo_world ''a.wav'' =
     (demo_world, Inr (replicate 161 [log1p 1]))"
    using parse_audio_saves_on_canonical_miss_only [OF L2 plain]
    by (simp add: demo_aug_choice demo_aug_fresh1 demo_aug_jitter del: One_nat_def)
  moreover have "parse_audio demo_ext demo_parser demo_draws demo_world ''a.wav'' =
     (demo_world\<lparr>files := ((files demo_world)
          (''cache/a9/a.wav.993e364.1.0.avg.npy.tmp.npy'' := None))
          (''cache/a9/a.wav.993e364.1.0.avg.npy'' \<mapsto>
             NpyDict [(''spect'', replicate 161 [log1p 1])])\<rparr>,
      Inr (replicate 161 [log1p 1]))"
    using parse_audio_saves_on_canonical_miss_only [OF L3 plain]
    by (simp add: t0 ev demo_fresh j0)
  ultimately show ?thesis
    by simp
qed

subsection \<open>An interrupted write, and the shuffle of the plain sampler\<close>

lemma try_save_interrupted_in_save:
  "files w fn = None \<Longrightarrow>
     try_save (InterruptedInSave True) w fn spect =
       (w\<lparr>files := (files w)(fn @ ''.tmp.npy'' \<mapsto> Truncated)\<rparr>, Inl FileNotFoundError)"
  "files w fn = Some f \<Longrightarrow>
     try_save (InterruptedInSave True) w fn spect =
       (w\<lparr>files := ((files w)(fn @ ''.tmp.npy'' \<mapsto> Truncated))(fn := None)\<rparr>, Inr ())"
  by (simp_all add: try_save_def on_interrupt_def os_unlink_def np_save_def)

lemma demo_interrupted_fresh:
  "fresh_spect demo_ext demo_parser demo_interrupted_draws (Bytes ''abc'') 0
     = Inr (replicate 161 [log1p 1])"
proof -
  have "raw_spect demo_ext demo_parser demo_interrupted_draws (Bytes ''abc'') 0
      = Inr (replicate 161 [1])"
    by (rule demo_raw)
      (simp_all add: demo_parser_def demo_interrupted_draws_def demo_draws_def)
  moreover have "normalize_audio demo_ext demo_parser (replicate 161 [1])
      = Inr (replicate 161 [log1p 1])"
    by (rule demo_normalize) (simp add: demo_parser_def)
  ultimately show ?thesis
    by (simp add: fresh_spect_def)
qed

lemma demo_corrupt_miss:
  "load_audio_cache demo_ext demo_parser demo_corrupt_world ''a.wav'' 0 =
     (demo_corrupt_world\<lparr>stdout :=
         [CantLoad ''cache/a9/a.wav.993e364.1.0.avg.npy'' UnpicklingError,
          Traceback UnpicklingError]\<rparr>,
      Inr (''cache/a9/a.wav.993e364.1.0.avg.npy'', None))"
proof -
  have "load_audio_cache demo_ext demo_parser demo_corrupt_world ''a.wav'' 0 =
      read_cache (migrate_old demo_corrupt_world ''a.wav-1.0-avg.npy''
                    ''cache/a9/a.wav.993e364.1.0.avg.npy'')
        ''cache/a9/a.wav.993e364.1.0.avg.npy''"
    by (rule demo_load_audio_cache)
      (simp_all add: demo_corrupt_world_def demo_world_def demo_parser_def)
  then show ?thesis
    by (simp add: migrate_old_def read_cache_def os_path_exists_def demo_corrupt_world_def
        demo_world_def np_load_spect_def)
qed

text \<open>
  Claim C3 asks that a write of the cache interrupted by \<open>KeyboardInterrupt\<close> removes the
  partial file and passes the interruption on.  The code, interrupted inside \<open>np.save\<close>
  with the temporary file begun: on a miss with no cache file, the truncated temporary
  file stays and the caller gets the \<open>FileNotFoundError\<close> of \<open>os.unlink(cache_fn)\<close>; with a
  cache file that could not be loaded, this file is removed, the truncated temporary
  file stays, and \<open>parse_audio\<close> returns the spectrogram, the interruption swallowed.
\<close>

theorem parse_audio_interrupted_write:
  "snd (parse_audio demo_ext demo_parser demo_interrupted_draws demo_world ''a.wav'')
     = Inl FileNotFoundError \<and>
   files (fst (parse_audio demo_ext demo_parser demo_interrupted_draws demo_world ''a.wav''))
     ''cache/a9/a.wav.993e364.1.0.avg.npy.tmp.npy'' = Some Truncated \<and>
   snd (parse_audio demo_ext demo_parser demo_interrupted_draws demo_corrupt_world ''a.wav'')
     = Inr (replicate 161 [log1p 1]) \<and>
   files (fst (parse_audio demo_ext demo_parser demo_interrupted_draws demo_corrupt_world
                 ''a.wav''))
     ''cache/a9/a.wav.993e364.1.0.avg.npy.tmp.npy'' = Some Truncated \<and>
   files (fst (parse_audio demo_ext demo_parser demo_interrupted_draws demo_corrupt_world
                 ''a.wav''))
     ''cache/a9/a.wav.993e364.1.0.avg.npy'' = None"
proof -
  let ?fn = "''cache/a9/a.wav.993e364.1.0.avg.npy''"
  have t0: "tempo_choice demo_parser demo_interrupted_draws = 0"
    by (simp add: tempo_choice_def demo_parser_def)
  have ev: "write_event demo_interrupted_draws = InterruptedInSave True"
    by (simp add: demo_interrupted_draws_def)
  have j: "final_jitter demo_parser demo_interrupted_draws s = s" for s
    by (simp add: final_jitter_def demo_parser_def)
  have a: "files demo_world ''a.wav'' = Some (Bytes ''abc'')"
    "files demo_world ?fn = None"
    by (simp_all add: demo_world_def)
  have "parse_audio demo_ext demo_parser demo_interrupted_draws demo_world ''a.wav'' =
      (demo_world\<lparr>files := (files demo_world)(?fn @ ''.tmp.npy'' \<mapsto> Truncated)\<rparr>,
       Inl FileNotFoundError)"
    using a
    by (simp add: parse_audio_def t0 demo_miss on_miss_def demo_interrupted_fresh ev
        try_save_interrupted_in_save(1))
  moreover have "parse_audio demo_ext demo_parser demo_interrupted_draws demo_corrupt_world
        ''a.wav'' =
      (demo_corrupt_world\<lparr>stdout := [CantLoad ?fn UnpicklingError, Traceback UnpicklingError],
          files := ((files demo_corrupt_world)(?fn @ ''.tmp.npy'' \<mapsto> Truncated))
                     (?fn := None)\<rparr>,
       Inr (replicate 161 [log1p 1]))"
  proof -
    let ?w = "demo_corrupt_world\<lparr>stdout :=
        [CantLoad ?fn UnpicklingError, Traceback UnpicklingError]\<rparr>"
    have b: "files ?w ''a.wav'' = Some (Bytes ''abc'')" "files ?w ?fn = Some (Bytes ''junk'')"
      by (simp_all add: demo_corrupt_world_def demo_world_def)
    show ?thesis
      using b
      by (simp add: parse_audio_def t0 demo_corrupt_miss on_miss_def demo_interrupted_fresh ev
          try_save_interrupted_in_save(2) [OF b(2)] j)
  qed
  ultimately show ?thesis
    by simp
qed

text \<open>
  Claim C7 asks that \<open>shuffle(epoch)\<close> of both samplers depends on the epoch alone.  The
  shuffle of \<open>BucketingSampler\<close> at epoch 5, on the two bins of two samples with batch
  size 1: with one state of the generator of the process the bins are swapped, with
  another they stay; the epoch changes nothing.
\<close>

theorem bucketing_sampler_shuffle_not_seeded:
  "bucketing_sampler_init 2 1 = Inr \<lparr> bs_bins = [[0], [1]] \<rparr> \<and>
   fst (bucketing_sampler_shuffle 5 [0] \<lparr> bs_bins = [[0], [1]] \<rparr>)
     = \<lparr> bs_bins = [[1], [0]] \<rparr> \<and>
   fst (bucketing_sampler_shuffle 5 [1] \<lparr> bs_bins = [[0], [1]] \<rparr>)
     = \<lparr> bs_bins = [[0], [1]] \<rparr> \<and>
   fst (bucketing_sampler_shuffle 6 [0] \<lparr> bs_bins = [[0], [1]] \<rparr>)
     = \<lparr> bs_bins = [[1], [0]] \<rparr>"
proof -
  have two: "[0..<2] = [0, 1]"
    by (simp add: upt_rec)
  have "bucketing_sampler_init 2 1 = Inr \<lparr> bs_bins = [[0], [1]] \<rparr>"
    by (simp add: bucketing_sampler_init_def make_bins_def two)
  moreover have "fst (bucketing_sampler_shuffle e [0] \<lparr> bs_bins = [[0], [1]] \<rparr>)
     = \<lparr> bs_bins = [[1], [0]] \<rparr>" for e
    by (simp add: bucketing_sampler_shuffle_def np_random_shuffle_def swap_def)
  moreover have "fst (bucketing_sampler_shuffle 5 [1] \<lparr> bs_bins = [[0], [1]] \<rparr>)
     = \<lparr> bs_bins = [[0], [1]] \<rparr>"
    by (simp add: bucketing_sampler_shuffle_def np_random_shuffle_def swap_def)
  ultimately show ?thesis
    by simp
qed

lemma bucketing_sampler_shuffle_epoch:
  "bucketing_sampler_shuffle epoch tape s = bucketing_sampler_shuffle epoch' tape s"
  by (simp add: bucketing_sampler_shuffle_def)

lemma dist_sampler_shuffle_epoch:
  "dist_sampler_shuffle randperm epoch s =
     (if \<exists>i \<in> set (randperm epoch (length (ds_bins s))). length (ds_bins s) \<le> i
      then Inl IndexError
      else Inr (s\<lparr>ds_bins := map (\<lambda>i. ds_bins s ! i) (randperm epoch (length (ds_bins s)))\<rparr>))"
  by (simp add: dist_sampler_shuffle_def Let_def)

subsection \<open>The canonical transform and the gain\<close>








subsection \<open>The derivation of the cache path\<close>

lemma cache_fn_of_eq_iff:
  assumes h: "length h1 = 9" "length h2 = 9" and t: "length t1 = 3" "length t2 = 3"
  shows "cache_fn_of c a1 h1 t1 ch = cache_fn_of c a2 h2 t2 ch \<longleftrightarrow>
    path_name a1 = path_name a2 \<and> h1 = h2 \<and> t1 = t2"
proof
  assume eq: "cache_fn_of c a1 h1 t1 ch = cache_fn_of c a2 h2 t2 ch"
  let ?S = "''.'' @ ch @ ''.npy''"
  let ?X1 = "path_name a1 @ ''.''" and ?X2 = "path_name a2 @ ''.''"
  let ?Y1 = "drop 2 h1 @ ''.'' @ t1" and ?Y2 = "drop 2 h2 @ ''.'' @ t2"
  from eq have "take 2 h1 @ (''/'' @ ?X1 @ ?Y1 @ ?S) = take 2 h2 @ (''/'' @ ?X2 @ ?Y2 @ ?S)"
    by (simp add: cache_fn_of_def)
  moreover have "length (take 2 h1) = length (take 2 h2)"
    using h by simp
  ultimately have hh: "take 2 h1 = take 2 h2"
    and rest: "''/'' @ ?X1 @ ?Y1 @ ?S = ''/'' @ ?X2 @ ?Y2 @ ?S"
    by (metis append_eq_append_conv)+
  from rest have "(?X1 @ ?Y1) @ ?S = (?X2 @ ?Y2) @ ?S"
    by simp
  then have xy: "?X1 @ ?Y1 = ?X2 @ ?Y2"
    by (simp only: append_same_eq)
  have ly: "length ?Y1 = length ?Y2"
    using h t by simp
  from xy ly have x: "?X1 = ?X2" and y: "?Y1 = ?Y2"
    by (metis append_eq_append_conv)+
  from x have names: "path_name a1 = path_name a2"
    by simp
  have "length (drop 2 h1) = length (drop 2 h2)"
    using h by simp
  with y have d: "drop 2 h1 = drop 2 h2" and tt: "''.'' @ t1 = ''.'' @ t2"
    by (metis append_eq_append_conv)+
  have "h1 = take 2 h1 @ drop 2 h1"
    by simp
  also have "\<dots> = take 2 h2 @ drop 2 h2"
    using hh d by simp
  finally have "h1 = h2"
    by simp
  with names tt show "path_name a1 = path_name a2 \<and> h1 = h2 \<and> t1 = t2"
    by simp
next
  assume "path_name a1 = path_name a2 \<and> h1 = h2 \<and> t1 = t2"
  then show "cache_fn_of c a1 h1 t1 ch = cache_fn_of c a2 h2 t2 ch"
    by (simp add: cache_fn_of_def)
qed

lemma TEMPOS_names:
  assumes "TEMPOS t1 = Some (tn1, tr1)" and "TEMPOS t2 = Some (tn2, tr2)"
  shows "length tn1 = 3" and "length tn2 = 3" and "tn1 = tn2 \<longleftrightarrow> t1 = t2"
  using assms by (auto simp: TEMPOS_def split: if_splits)

lemma digest_prefix_collision:
  "\<exists>c c'. c \<noteq> c' \<and> take 9 (hexdigest (sha1 ext c)) = take 9 (hexdigest (sha1 ext c'))"
proof (rule ccontr)
  let ?f = "\<lambda>c. take 9 (hexdigest (sha1 ext c))"
  assume "\<not> (\<exists>c c'. c \<noteq> c' \<and> ?f c = ?f c')"
  then have inj: "inj ?f"
    by (auto simp: inj_on_def)
  have "range ?f \<subseteq> {s. set s \<subseteq> set ''0123456789abcdef'' \<and> length s = 9}"
  proof
    fix s assume "s \<in> range ?f"
    then obtain c where s: "s = ?f c" by auto
    have "set (hexdigest (sha1 ext c)) \<subseteq> set ''0123456789abcdef''"
    proof
      fix x assume "x \<in> set (hexdigest (sha1 ext c))"
      then obtain n where "x = digit_char n"
        by (auto simp: hexdigest_def)
      moreover have "''0123456789abcdef'' ! (n mod 16) \<in> set ''0123456789abcdef''"
        by (rule nth_mem) simp
      ultimately show "x \<in> set ''0123456789abcdef''"
        by (simp only: digit_char_def)
    qed
    then have "set s \<subseteq> set ''0123456789abcdef''"
      unfolding s using set_take_subset by fast
    moreover have "length s = 9"
      by (simp add: s length_hexdigest)
    ultimately show "s \<in> {s. set s \<subseteq> set ''0123456789abcdef'' \<and> length s = 9}"
      by simp
  qed
  moreover have "finite {s. set s \<subseteq> set ''0123456789abcdef'' \<and> length s = 9}"
    by (rule finite_lists_length_eq) simp
  ultimately have "finite (range ?f)"
    by (rule finite_subset)
  then have "finite (UNIV :: file_content set)"
    using inj by (rule finite_imageD)
  moreover have "infinite (UNIV :: file_content set)"
  proof
    assume "finite (UNIV :: file_content set)"
    then have "finite (range Bytes)"
      by (rule rev_finite_subset) simp
    then have "finite (UNIV :: string set)"
      by (rule finite_imageD) (simp add: inj_on_def)
    then show False
      using infinite_UNIV_listI by blast
  qed
  ultimately show False
    by simp
qed

text \<open>
  Claim C5, as amended.  The cache path returned by \<open>load_audio_cache\<close> is derived from
  the base name of the audio path, the first nine hexadecimal digits of the SHA-1 digest
  of the bytes of the file, the tempo variant and the channel label: for one parser, two
  calls return the same cache path exactly when the base names of the audio paths, the
  nine digits and the tempo ids are the same.  So files with the same bytes and the same
  base name share the path wherever they lie, a file with another base name has another
  path, and a change of the bytes changes the path when it changes the nine digits, which
  not every change does.
\<close>

theorem cache_path_derivation:
  assumes L1: "load_audio_cache ext p w1 a1 t1 = (w1', Inr (fn1, c1))"
    and L2: "load_audio_cache ext p w2 a2 t2 = (w2', Inr (fn2, c2))"
    and C1: "files w1 a1 = Some content1"
    and C2: "files w2 a2 = Some content2"
  shows "(fn1 = fn2 \<longleftrightarrow>
       path_name a1 = path_name a2 \<and>
       take 9 (hexdigest (sha1 ext content1)) = take 9 (hexdigest (sha1 ext content2)) \<and>
       t1 = t2) \<and>
    (\<exists>c c'. c \<noteq> c' \<and> take 9 (hexdigest (sha1 ext c)) = take 9 (hexdigest (sha1 ext c')))"
proof -
  from L1 obtain tn1 tr1 content1' where T1: "TEMPOS t1 = Some (tn1, tr1)"
    and "files w1 a1 = Some content1'"
    and "fn1 = cache_fn_of (cache_path p) a1 (take 9 (hexdigest (sha1 ext content1'))) tn1
                (chan_of (channel p))"
    by (rule load_audio_cache_Inr)
  then have fn1: "fn1 = cache_fn_of (cache_path p) a1 (take 9 (hexdigest (sha1 ext content1))) tn1
                (chan_of (channel p))"
    using C1 by simp
  from L2 obtain tn2 tr2 content2' where T2: "TEMPOS t2 = Some (tn2, tr2)"
    and "files w2 a2 = Some content2'"
    and "fn2 = cache_fn_of (cache_path p) a2 (take 9 (hexdigest (sha1 ext content2'))) tn2
                (chan_of (channel p))"
    by (rule load_audio_cache_Inr)
  then have fn2: "fn2 = cache_fn_of (cache_path p) a2 (take 9 (hexdigest (sha1 ext content2))) tn2
                (chan_of (channel p))"
    using C2 by simp
  have len: "length (take 9 (hexdigest (sha1 ext c))) = 9" for c
    by (simp add: length_hexdigest)
  note tn = TEMPOS_names [OF T1 T2]
  have "fn1 = fn2 \<longleftrightarrow>
       path_name a1 = path_name a2 \<and>
       take 9 (hexdigest (sha1 ext content1)) = take 9 (hexdigest (sha1 ext content2)) \<and>
       tn1 = tn2"
    unfolding fn1 fn2 by (rule cache_fn_of_eq_iff [OF len len tn(1,2)])
  then show ?thesis
    using tn(3) digest_prefix_collision by simp
qed

lemma demo_load_copy:
  assumes "files demo_copies_world a = Some (Bytes ''abc'')"
    and "files demo_copies_world (a @ ''-1.0-avg.npy'') = None"
    and "files demo_copies_world (''cache/a9/'' @ path_name a @ ''.993e364.1.0.avg.npy'') = None"
  shows "load_audio_cache demo_ext demo_parser demo_copies_world a 0 =
    (demo_copies_world, Inr (''cache/a9/'' @ path_name a @ ''.993e364.1.0.avg.npy'', None))"
  using assms
  by (simp add: load_audio_cache_def TEMPOS_def chan_of_def demo_hash cache_fn_of_def
      old_cache_fn_of_def Let_def demo_parser_def migrate_old_def os_path_exists_def
      read_cache_def)

lemma demo_copies:
  "load_audio_cache demo_ext demo_parser demo_copies_world ''a.wav'' 0 =
    (demo_copies_world, Inr (''cache/a9/a.wav.993e364.1.0.avg.npy'', None))"
  "load_audio_cache demo_ext demo_parser demo_copies_world ''b.wav'' 0 =
    (demo_copies_world, Inr (''cache/a9/b.wav.993e364.1.0.avg.npy'', None))"
  "load_audio_cache demo_ext demo_parser demo_copies_world ''old/a.wav'' 0 =
    (demo_copies_world, Inr (''cache/a9/a.wav.993e364.1.0.avg.npy'', None))"
proof -
  have n: "path_name ''a.wav'' = ''a.wav''" "path_name ''b.wav'' = ''b.wav''"
    "path_name ''old/a.wav'' = ''a.wav''"
    by (simp_all add: path_name_def path_parts_def)
  show "load_audio_cache demo_ext demo_parser demo_copies_world ''a.wav'' 0 =
    (demo_copies_world, Inr (''cache/a9/a.wav.993e364.1.0.avg.npy'', None))"
    using demo_load_copy [of "''a.wav''"] by (simp add: n demo_copies_world_def)
  show "load_audio_cache demo_ext demo_parser demo_copies_world ''b.wav'' 0 =
    (demo_copies_world, Inr (''cache/a9/b.wav.993e364.1.0.avg.npy'', None))"
    using demo_load_copy [of "''b.wav''"] by (simp add: n demo_copies_world_def)
  show "load_audio_cache demo_ext demo_parser demo_copies_world ''old/a.wav'' 0 =
    (demo_copies_world, Inr (''cache/a9/a.wav.993e364.1.0.avg.npy'', None))"
    using demo_load_copy [of "''old/a.wav''"] by (simp add: n demo_copies_world_def)
qed

text \<open>Two files with the same bytes and different names: the cache paths differ.\<close>

theorem cache_path_rename_counterexample:
  "files demo_copies_world ''a.wav'' = files demo_copies_world ''b.wav'' \<and>
   snd (load_audio_cache demo_ext demo_parser demo_copies_world ''a.wav'' 0)
     = Inr (''cache/a9/a.wav.993e364.1.0.avg.npy'', None) \<and>
   snd (load_audio_cache demo_ext demo_parser demo_copies_world ''b.wav'' 0)
     = Inr (''cache/a9/b.wav.993e364.1.0.avg.npy'', None) \<and>
   ''cache/a9/a.wav.993e364.1.0.avg.npy'' \<noteq> ''cache/a9/b.wav.993e364.1.0.avg.npy''"
  by (simp add: demo_copies) (simp add: demo_copies_world_def)

theorem cache_path_derivation_witness:
  "load_audio_cache demo_ext demo_parser demo_copies_world ''a.wav'' 0 =
     (demo_copies_world, Inr (''cache/a9/a.wav.993e364.1.0.avg.npy'', None)) \<and>
   load_audio_cache demo_ext demo_parser demo_copies_world ''old/a.wav'' 0 =
     (demo_copies_world, Inr (''cache/a9/a.wav.993e364.1.0.avg.npy'', None)) \<and>
   load_audio_cache demo_ext demo_parser demo_copies_world ''b.wav'' 0 =
     (demo_copies_world, Inr (''cache/a9/b.wav.993e364.1.0.avg.npy'', None)) \<and>
   files demo_copies_world ''a.wav'' = Some (Bytes ''abc'') \<and>
   files demo_copies_world ''old/a.wav'' = Some (Bytes ''abc'') \<and>
   files demo_copies_world ''b.wav'' = Some (Bytes ''abc'') \<and>
   path_name ''a.wav'' = path_name ''old/a.wav'' \<and>
   path_name ''a.wav'' \<noteq> path_name ''b.wav''"
proof -
  have f: "files demo_copies_world ''a.wav'' = Some (Bytes ''abc'')"
    "files demo_copies_world ''old/a.wav'' = Some (Bytes ''abc'')"
    "files demo_copies_world ''b.wav'' = Some (Bytes ''abc'')"
    by (simp_all add: demo_copies_world_def)
  have "path_name ''a.wav'' = path_name ''old/a.wav''"
    using cache_path_derivation [OF demo_copies(1) demo_copies(3) f(1) f(2)] by simp
  moreover have "path_name ''a.wav'' \<noteq> path_name ''b.wav''"
    using cache_path_derivation [OF demo_copies(1) demo_copies(2) f(1) f(3)] by simp
  ultimately show ?thesis
    using demo_copies f by simp
qed

end
